theory Spec2Isabelle
  imports Main "HOL-Library.Word"
begin

unbundle bit_operations_syntax

section \<open>Data model of the m6502 core (cpu.go)\<close>

text \<open>
  A Go \<open>byte\<close> is an 8-bit word: \<open>+\<close> and \<open>-\<close> wrap, \<open>push_bit\<close> and \<open>drop_bit\<close>
  are the shifts \<open><<\<close> and \<open>>>\<close>, \<open>NOT\<close> is Go's unary \<open>^\<close>.
\<close>

type_synonym byte = "8 word"

text \<open>
  The \<open>Bus\<close> interface. Both methods are allowed to panic; the value handed to
  \<open>panic\<close> is either a string or something else (the distinction matters to the
  type assertion \<open>r.(string)\<close> in \<open>Step\<close>). The bus object has a state of its own
  (type \<open>'b\<close>), which a call may change whether it panics or not.
\<close>

datatype panic = PanicString string | PanicOther

record 'b Bus =
  Read :: "'b \<Rightarrow> byte \<Rightarrow> byte \<Rightarrow> (panic + byte) \<times> 'b"
  Write :: "'b \<Rightarrow> byte \<Rightarrow> byte \<Rightarrow> byte \<Rightarrow> panic option \<times> 'b"

text \<open>
  The \<open>CPU\<close> struct. The field \<open>bus\<close> holds the state of the bus object the CPU is
  bound to. \<open>cycles\<close> is a Go \<open>uint\<close>; \<open>tick\<close> sets it to 0 and adds at most a
  handful of single cycles, so it is modelled as a natural number.
\<close>

record 'b CPU =
  bus :: 'b
  cpu_a :: byte
  cpu_x :: byte
  cpu_y :: byte
  cpu_s :: byte
  cpu_p :: byte
  pcl :: byte
  pch :: byte
  cycles :: nat
  halted :: bool

definition flagN :: byte where "flagN = push_bit 7 1"
definition flagV :: byte where "flagV = push_bit 6 1"
definition flagU :: byte where "flagU = push_bit 5 1"
definition flagB :: byte where "flagB = push_bit 4 1"
definition flagD :: byte where "flagD = push_bit 3 1"
definition flagI :: byte where "flagI = push_bit 2 1"
definition flagZ :: byte where "flagZ = push_bit 1 1"
definition flagC :: byte where "flagC = push_bit 0 1"

text \<open>Methods \<open>set\<close> and \<open>has\<close> of type \<open>flag\<close>.\<close>

definition flag_set :: "byte \<Rightarrow> bool \<Rightarrow> byte \<Rightarrow> byte" where
  "flag_set f cond b = (if cond then f OR b else f AND NOT b)"

definition flag_has :: "byte \<Rightarrow> byte \<Rightarrow> bool" where
  "flag_has f b \<longleftrightarrow> f AND b \<noteq> 0"

text \<open>
  Errors returned by \<open>Step\<close>: the sentinel \<open>ErrHalted\<close>, or an error value made by
  \<open>fmt.Errorf\<close> / \<open>errors.New\<close>, which is its message.
\<close>

datatype error = ErrHalted | Error string

section \<open>Computations on the CPU that may panic\<close>

text \<open>
  A computation takes the CPU and returns the CPU as it has become, with either a
  result or the panic that interrupted it. The updates made before a panic stay.
\<close>

type_synonym ('b, 'v) exec = "'b CPU \<Rightarrow> (panic + 'v) \<times> 'b CPU"

definition retM :: "'v \<Rightarrow> ('b, 'v) exec" where
  "retM v = (\<lambda>c. (Inr v, c))"

definition bindM :: "('b, 'v) exec \<Rightarrow> ('v \<Rightarrow> ('b, 'w) exec) \<Rightarrow> ('b, 'w) exec" where
  "bindM m f = (\<lambda>c. case m c of (Inl e, c') \<Rightarrow> (Inl e, c') | (Inr v, c') \<Rightarrow> f v c')"

definition seqM :: "('b, 'v) exec \<Rightarrow> ('b, 'w) exec \<Rightarrow> ('b, 'w) exec" where
  "seqM m n = bindM m (\<lambda>_. n)"

definition getM :: "('b CPU \<Rightarrow> 'v) \<Rightarrow> ('b, 'v) exec" where
  "getM g = (\<lambda>c. (Inr (g c), c))"

definition modM :: "('b CPU \<Rightarrow> 'b CPU) \<Rightarrow> ('b, unit) exec" where
  "modM g = (\<lambda>c. (Inr (), g c))"

text \<open>The calls \<open>cpu.bus.Read(l, h)\<close> and \<open>cpu.bus.Write(l, h, db)\<close>.\<close>

definition busRead :: "'b Bus \<Rightarrow> byte \<Rightarrow> byte \<Rightarrow> ('b, byte) exec" where
  "busRead B l h = (\<lambda>c. case Read B (bus c) l h of (r, b') \<Rightarrow> (r, c\<lparr>bus := b'\<rparr>))"

definition busWrite :: "'b Bus \<Rightarrow> byte \<Rightarrow> byte \<Rightarrow> byte \<Rightarrow> ('b, unit) exec" where
  "busWrite B l h db = (\<lambda>c. case Write B (bus c) l h db of
      (None, b') \<Rightarrow> (Inr (), c\<lparr>bus := b'\<rparr>)
    | (Some e, b') \<Rightarrow> (Inl e, c\<lparr>bus := b'\<rparr>))"

section \<open>The helpers of \<open>tick\<close>\<close>

definition when' :: "bool \<Rightarrow> byte \<Rightarrow> byte \<Rightarrow> byte" where
  "when' d t g = (if d then t else g)"

definition cost :: "byte \<Rightarrow> ('b, unit) exec" where
  "cost n = modM (\<lambda>c. c\<lparr>cycles := cycles c + unat n\<rparr>)"

definition uadd :: "byte \<Rightarrow> byte \<Rightarrow> byte \<times> byte" where
  "uadd a b = (let s = a + b in (s, when' (s < b) 0x01 0x00))"

text \<open>
  \<open>ovfl\<close> and \<open>sadd\<close> compute in \<open>int16\<close>. The only sum formed is that of a byte
  (0..255) and an \<open>int8\<close> (-128..127), which cannot leave the \<open>int16\<close> range, so the
  \<open>int16\<close> values are integers here; \<open>>> 8\<close> on a signed value is \<open>drop_bit 8\<close>, and
  \<open>B(s)\<close> keeps the low 8 bits.
\<close>

definition ovfl :: "int \<Rightarrow> byte" where
  "ovfl s = when' (drop_bit 8 s > 0x00) 0x01 (when' (s < 0) 0xFF 0x00)"

definition sadd :: "byte \<Rightarrow> int \<Rightarrow> byte \<times> byte" where
  "sadd a b = (let s = uint a + b in (word_of_int s, ovfl s))"

definition inc :: "byte \<Rightarrow> byte \<Rightarrow> byte \<times> byte" where
  "inc l h = (case uadd l 0x01 of (l', c) \<Rightarrow> (l', h + c))"

definition setPC :: "byte \<Rightarrow> byte \<Rightarrow> ('b, unit) exec" where
  "setPC l h = modM (\<lambda>c. c\<lparr>pcl := l, pch := h\<rparr>)"

definition incPC :: "('b, unit) exec" where
  "incPC = bindM (getM pcl) (\<lambda>l. bindM (getM pch) (\<lambda>h.
     case inc l h of (l', h') \<Rightarrow> setPC l' h'))"

definition read :: "'b Bus \<Rightarrow> byte \<Rightarrow> byte \<Rightarrow> ('b, byte) exec" where
  "read B l h = seqM (cost 1) (busRead B l h)"

definition zread :: "'b Bus \<Rightarrow> byte \<Rightarrow> ('b, byte) exec" where
  "zread B l = read B l 0x00"

definition vread :: "'b Bus \<Rightarrow> byte \<Rightarrow> ('b, byte \<times> byte) exec" where
  "vread B l = bindM (read B l 0xFF) (\<lambda>lo. bindM (read B (l + 1) 0xFF) (\<lambda>hi. retM (lo, hi)))"

definition write' :: "'b Bus \<Rightarrow> byte \<Rightarrow> byte \<Rightarrow> byte \<Rightarrow> ('b, unit) exec" where
  "write' B l h b = seqM (cost 1) (busWrite B l h b)"

definition zwrite :: "'b Bus \<Rightarrow> byte \<Rightarrow> byte \<Rightarrow> ('b, unit) exec" where
  "zwrite B l b = write' B l 0x00 b"

definition fetch :: "'b Bus \<Rightarrow> ('b, byte) exec" where
  "fetch B = bindM (getM pcl) (\<lambda>l. bindM (getM pch) (\<lambda>h.
     bindM (read B l h) (\<lambda>b. seqM incPC (retM b))))"

definition setF :: "bool \<Rightarrow> byte \<Rightarrow> ('b, unit) exec" where
  "setF cond f = modM (\<lambda>c. c\<lparr>cpu_p := flag_set (cpu_p c) cond f\<rparr>)"

definition hasF :: "byte \<Rightarrow> ('b, bool) exec" where
  "hasF f = getM (\<lambda>c. flag_has (cpu_p c) f)"

definition setC :: "bool \<Rightarrow> ('b, unit) exec" where
  "setC cond = setF cond flagC"

definition setI :: "bool \<Rightarrow> ('b, unit) exec" where
  "setI cond = setF cond flagI"

definition setN :: "byte \<Rightarrow> ('b, unit) exec" where
  "setN b = setF (b AND 0x80 \<noteq> 0x00) flagN"

definition setNZ :: "byte \<Rightarrow> ('b, byte) exec" where
  "setNZ b = seqM (setN b) (seqM (setF (b = 0x00) flagZ) (retM b))"

definition setA :: "byte \<Rightarrow> ('b, unit) exec" where
  "setA b = bindM (setNZ b) (\<lambda>v. modM (\<lambda>c. c\<lparr>cpu_a := v\<rparr>))"

definition setX :: "byte \<Rightarrow> ('b, unit) exec" where
  "setX b = bindM (setNZ b) (\<lambda>v. modM (\<lambda>c. c\<lparr>cpu_x := v\<rparr>))"

definition setY :: "byte \<Rightarrow> ('b, unit) exec" where
  "setY b = bindM (setNZ b) (\<lambda>v. modM (\<lambda>c. c\<lparr>cpu_y := v\<rparr>))"

definition push :: "'b Bus \<Rightarrow> byte \<Rightarrow> ('b, unit) exec" where
  "push B b = bindM (getM cpu_s) (\<lambda>sp.
     seqM (write' B sp 0x01 b) (modM (\<lambda>c. c\<lparr>cpu_s := cpu_s c - 1\<rparr>)))"

definition pop :: "'b Bus \<Rightarrow> ('b, byte) exec" where
  "pop B = seqM (modM (\<lambda>c. c\<lparr>cpu_s := cpu_s c + 1\<rparr>))
     (bindM (getM cpu_s) (\<lambda>sp. read B sp 0x01))"

definition pushPC :: "'b Bus \<Rightarrow> ('b, unit) exec" where
  "pushPC B = seqM (bindM (getM pch) (push B)) (bindM (getM pcl) (push B))"

definition popPC :: "'b Bus \<Rightarrow> ('b, byte \<times> byte) exec" where
  "popPC B = bindM (pop B) (\<lambda>l. bindM (pop B) (\<lambda>h. retM (l, h)))"

definition php :: "'b Bus \<Rightarrow> ('b, unit) exec" where
  "php B = bindM (getM cpu_p) (\<lambda>f. push B (f OR flagU OR flagB))"

definition plp :: "'b Bus \<Rightarrow> ('b, unit) exec" where
  "plp B = bindM (pop B) (\<lambda>v. modM (\<lambda>c. c\<lparr>cpu_p := v AND NOT (flagU OR flagB)\<rparr>))"

definition cmp :: "byte \<Rightarrow> byte \<Rightarrow> ('b, unit) exec" where
  "cmp a b = seqM (setNZ (b - a)) (setC (b \<ge> a))"

definition bit_op :: "byte \<Rightarrow> ('b, unit) exec" where
  "bit_op b = seqM (setN b) (bindM (getM cpu_a) (\<lambda>a.
     seqM (setF (b AND a = 0) flagZ) (setF (b AND 0x40 \<noteq> 0) flagV)))"

definition asl :: "byte \<Rightarrow> ('b, byte) exec" where
  "asl b = seqM (setC (b AND 0x80 \<noteq> 0)) (setNZ (push_bit 1 b))"

definition lsr :: "byte \<Rightarrow> ('b, byte) exec" where
  "lsr b = seqM (setC (b AND 0x01 \<noteq> 0)) (setNZ (drop_bit 1 b))"

definition rol :: "byte \<Rightarrow> ('b, byte) exec" where
  "rol b = bindM (getM cpu_p) (\<lambda>f. let c = f AND flagC in
     seqM (setC (b AND 0x80 \<noteq> 0)) (setNZ (push_bit 1 b OR c)))"

definition ror :: "byte \<Rightarrow> ('b, byte) exec" where
  "ror b = bindM (getM cpu_p) (\<lambda>f. let c = f AND flagC in
     seqM (setC (b AND 0x01 \<noteq> 0)) (setNZ (drop_bit 1 b OR push_bit 7 c)))"

definition abs_addr :: "'b Bus \<Rightarrow> ('b, byte \<times> byte) exec" where
  "abs_addr B = bindM (fetch B) (\<lambda>l. bindM (fetch B) (\<lambda>h. retM (l, h)))"

definition absN :: "'b Bus \<Rightarrow> byte \<Rightarrow> ('b, byte \<times> byte \<times> byte) exec" where
  "absN B n = bindM (fetch B) (\<lambda>b. case uadd b n of (l, c) \<Rightarrow>
     bindM (fetch B) (\<lambda>h. retM (l, h + c, c)))"

definition relN :: "byte \<Rightarrow> ('b, byte \<times> byte \<times> byte) exec" where
  "relN n = bindM (getM pcl) (\<lambda>pl. case sadd pl (sint n) of (l, ov) \<Rightarrow>
     bindM (getM pch) (\<lambda>ph. retM (l, ph + ov, ov)))"

definition indY :: "'b Bus \<Rightarrow> ('b, byte \<times> byte \<times> byte) exec" where
  "indY B = bindM (fetch B) (\<lambda>b. bindM (zread B b) (\<lambda>z. bindM (getM cpu_y) (\<lambda>yy.
     case uadd z yy of (l, c) \<Rightarrow> bindM (zread B (b + 1)) (\<lambda>h. retM (l, h + c, c)))))"

definition indX :: "'b Bus \<Rightarrow> ('b, byte \<times> byte) exec" where
  "indX B = bindM (fetch B) (\<lambda>f. bindM (getM cpu_x) (\<lambda>xx. let b = f + xx in
     bindM (zread B b) (\<lambda>l. bindM (zread B (b + 1)) (\<lambda>h. retM (l, h)))))"

definition adc :: "byte \<Rightarrow> ('b, byte) exec" where
  "adc b = bindM (hasF flagD) (\<lambda>dec. bindM (getM cpu_a) (\<lambda>a. bindM (hasF flagC) (\<lambda>cf.
     if dec then
       let l0 = (a AND 0x0F) + (b AND 0x0F) + when' cf 0x01 0x00;
           l = l0 + when' (l0 AND 0xFF > 9) 6 0;
           h0 = drop_bit 4 a + drop_bit 4 b + when' (l > 0x0F) 1 0;
           h = h0 + when' (h0 AND 0xFF > 9) 6 0
       in seqM (setC (h > 0x0F)) (retM ((l AND 0x0F) OR (push_bit 4 h AND 0xF0)))
     else
       let w = (ucast a :: 16 word) + ucast b + ucast (when' cf 0x01 0x00);
           r = (ucast w :: byte)
       in seqM (setC (w > 0xFF))
            (seqM (setF ((a XOR r) AND (b XOR r) AND 0x80 \<noteq> 0x00) flagV) (retM r)))))"

definition sbc :: "byte \<Rightarrow> ('b, byte) exec" where
  "sbc b = bindM (hasF flagD) (\<lambda>dec. bindM (getM cpu_a) (\<lambda>a. bindM (hasF flagC) (\<lambda>cf.
     if dec then
       let l0 = (a AND 0x0F) - (b AND 0x0F) - when' cf 0x00 0x01;
           l = l0 - when' (l0 AND 0x10 \<noteq> 0) 6 0;
           h0 = drop_bit 4 a - drop_bit 4 b - when' (l AND 0x10 \<noteq> 0) 1 0;
           h = h0 - when' (h0 AND 0x10 \<noteq> 0) 6 0
       in seqM (setC (h AND 0xFF < 0x0F)) (retM ((l AND 0x0F) OR push_bit 4 h))
     else adc (NOT b))))"

definition branch :: "'b Bus \<Rightarrow> bool \<Rightarrow> ('b, unit) exec" where
  "branch B cond = bindM (fetch B) (\<lambda>b.
     if cond then bindM (relN b) (\<lambda>(l, h, ov).
       seqM (cost (1 + when' (ov = 0) 0 1)) (setPC l h))
     else retM ())"

section \<open>The opcode switch of \<open>tick\<close>\<close>

text \<open>
  The \<open>switch fetch()\<close> statement as a table from the case constant to the case body,
  in the order of the source. The case constants are distinct, so looking an opcode up
  with \<open>map_of\<close> selects the one case the switch would run; opcodes without an entry
  fall to \<open>default\<close>. The comments repeat the source's: mnemonic, addressing, cycles.
\<close>

definition optable :: "'b Bus \<Rightarrow> (byte \<times> ('b, unit) exec) list" where
  "optable B = [
    (0x00, \<comment> \<open>BRK | implied | 7\<close>
      bindM (fetch B) (\<lambda>v1. seqM (pushPC B) (seqM (php B) (bindM (vread B 0xFE) (\<lambda>(v2, v3). seqM (setPC v2 v3) (setI True)))))),
    (0x20, \<comment> \<open>JSR oper | absolute | 6\<close>
      bindM (fetch B) (\<lambda>v1. seqM (pushPC B) (bindM (fetch B) (\<lambda>v2. seqM (setPC v1 v2) (cost 1))))),
    (0x40, \<comment> \<open>RTI | implied | 7\<close>
      seqM (plp B) (bindM (popPC B) (\<lambda>(v1, v2). seqM (setPC v1 v2) (cost 3)))),
    (0x60, \<comment> \<open>RTS | implied | 6\<close>
      bindM (popPC B) (\<lambda>(v1, v2). bindM (retM (inc v1 v2)) (\<lambda>(v3, v4). seqM (setPC v3 v4) (cost 3)))),
    (0x80, \<comment> \<open>NOP | immediate | 2\<close>
      cost 1),
    (0xA0, \<comment> \<open>LDY #oper | immediate | 2\<close>
      bindM (fetch B) (\<lambda>v1. setY v1)),
    (0xC0, \<comment> \<open>CPY #oper | immediate | 2\<close>
      bindM (fetch B) (\<lambda>v1. bindM (getM cpu_y) (\<lambda>v2. cmp v1 v2))),
    (0xE0, \<comment> \<open>CPX #oper | immediate | 2\<close>
      bindM (fetch B) (\<lambda>v1. bindM (getM cpu_x) (\<lambda>v2. cmp v1 v2))),
    (0x01, \<comment> \<open>ORA (oper,X) | (indirect,X) | 6\<close>
      bindM (getM cpu_a) (\<lambda>v1. bindM (indX B) (\<lambda>(v2, v3). bindM (read B v2 v3) (\<lambda>v4. seqM (setA (v1 OR v4)) (cost 1))))),
    (0x21, \<comment> \<open>AND (oper,X) | (indirect,X) | 6\<close>
      bindM (getM cpu_a) (\<lambda>v1. bindM (indX B) (\<lambda>(v2, v3). bindM (read B v2 v3) (\<lambda>v4. seqM (setA (v1 AND v4)) (cost 1))))),
    (0x41, \<comment> \<open>EOR (oper,X) | (indirect,X) | 6\<close>
      bindM (getM cpu_a) (\<lambda>v1. bindM (indX B) (\<lambda>(v2, v3). bindM (read B v2 v3) (\<lambda>v4. seqM (setA (v1 XOR v4)) (cost 1))))),
    (0x61, \<comment> \<open>ADC (oper,X) | (indirect,X) | 6\<close>
      bindM (indX B) (\<lambda>(v1, v2). bindM (read B v1 v2) (\<lambda>v3. bindM (adc v3) (\<lambda>v4. seqM (setA v4) (cost 1))))),
    (0x81, \<comment> \<open>STA (oper,X) | (indirect,X) | 6\<close>
      bindM (indX B) (\<lambda>(v1, v2). bindM (getM cpu_a) (\<lambda>v3. seqM (write' B v1 v2 v3) (cost 1)))),
    (0xA1, \<comment> \<open>LDA (oper,X) | (indirect,X) | 6\<close>
      bindM (indX B) (\<lambda>(v1, v2). bindM (read B v1 v2) (\<lambda>v3. seqM (setA v3) (cost 1)))),
    (0xC1, \<comment> \<open>CMP (oper,X) | (indirect,X) | 6\<close>
      bindM (indX B) (\<lambda>(v1, v2). bindM (read B v1 v2) (\<lambda>v3. bindM (getM cpu_a) (\<lambda>v4. seqM (cmp v3 v4) (cost 1))))),
    (0xE1, \<comment> \<open>SBC (oper,X) | (indirect,X) | 6\<close>
      bindM (indX B) (\<lambda>(v1, v2). bindM (read B v1 v2) (\<lambda>v3. bindM (sbc v3) (\<lambda>v4. seqM (setA v4) (cost 1))))),
    (0x02, \<comment> \<open>HLT | 1\<close>
      modM (\<lambda>c. c\<lparr>halted := True\<rparr>)),
    (0x22, \<comment> \<open>HLT | 1\<close>
      modM (\<lambda>c. c\<lparr>halted := True\<rparr>)),
    (0x42, \<comment> \<open>HLT | 1\<close>
      modM (\<lambda>c. c\<lparr>halted := True\<rparr>)),
    (0x62, \<comment> \<open>HLT | 1\<close>
      modM (\<lambda>c. c\<lparr>halted := True\<rparr>)),
    (0x82, \<comment> \<open>NOP | immediate | 2\<close>
      cost 1),
    (0xA2, \<comment> \<open>LDX #oper | immediate | 2\<close>
      bindM (fetch B) (\<lambda>v1. setX v1)),
    (0xC2, \<comment> \<open>NOP | immediate | 2\<close>
      cost 1),
    (0xE2, \<comment> \<open>NOP | immediate | 2\<close>
      cost 1),
    (0x04, \<comment> \<open>NOP | zeropage | 3\<close>
      cost 2),
    (0x24, \<comment> \<open>BIT oper | zeropage | 3\<close>
      bindM (fetch B) (\<lambda>v1. bindM (zread B v1) (\<lambda>v2. bit_op v2))),
    (0x44, \<comment> \<open>NOP | zeropage | 3\<close>
      cost 2),
    (0x64, \<comment> \<open>NOP | zeropage | 3\<close>
      cost 2),
    (0x84, \<comment> \<open>STY oper | zeropage | 3\<close>
      bindM (fetch B) (\<lambda>v1. bindM (getM cpu_y) (\<lambda>v2. zwrite B v1 v2))),
    (0xA4, \<comment> \<open>LDY oper | zeropage | 3\<close>
      bindM (fetch B) (\<lambda>v1. bindM (zread B v1) (\<lambda>v2. setY v2))),
    (0xC4, \<comment> \<open>CPY oper | zeropage | 3\<close>
      bindM (fetch B) (\<lambda>v1. bindM (zread B v1) (\<lambda>v2. bindM (getM cpu_y) (\<lambda>v3. cmp v2 v3)))),
    (0xE4, \<comment> \<open>CPX oper | zeropage | 3\<close>
      bindM (fetch B) (\<lambda>v1. bindM (zread B v1) (\<lambda>v2. bindM (getM cpu_x) (\<lambda>v3. cmp v2 v3)))),
    (0x05, \<comment> \<open>ORA oper | zeropage | 3\<close>
      bindM (getM cpu_a) (\<lambda>v1. bindM (fetch B) (\<lambda>v2. bindM (zread B v2) (\<lambda>v3. setA (v1 OR v3))))),
    (0x25, \<comment> \<open>AND oper | zeropage | 3\<close>
      bindM (getM cpu_a) (\<lambda>v1. bindM (fetch B) (\<lambda>v2. bindM (zread B v2) (\<lambda>v3. setA (v1 AND v3))))),
    (0x45, \<comment> \<open>EOR oper | zeropage | 3\<close>
      bindM (getM cpu_a) (\<lambda>v1. bindM (fetch B) (\<lambda>v2. bindM (zread B v2) (\<lambda>v3. setA (v1 XOR v3))))),
    (0x65, \<comment> \<open>ADC oper | zeropage | 3\<close>
      bindM (fetch B) (\<lambda>v1. bindM (zread B v1) (\<lambda>v2. bindM (adc v2) (\<lambda>v3. setA v3)))),
    (0x85, \<comment> \<open>STA oper | zeropage | 3\<close>
      bindM (fetch B) (\<lambda>v1. bindM (getM cpu_a) (\<lambda>v2. zwrite B v1 v2))),
    (0xA5, \<comment> \<open>LDA oper | zeropage | 3\<close>
      bindM (fetch B) (\<lambda>v1. bindM (zread B v1) (\<lambda>v2. setA v2))),
    (0xC5, \<comment> \<open>CMP oper | zeropage | 3\<close>
      bindM (fetch B) (\<lambda>v1. bindM (zread B v1) (\<lambda>v2. bindM (getM cpu_a) (\<lambda>v3. cmp v2 v3)))),
    (0xE5, \<comment> \<open>SBC oper | zeropage | 3\<close>
      bindM (fetch B) (\<lambda>v1. bindM (zread B v1) (\<lambda>v2. bindM (sbc v2) (\<lambda>v3. setA v3)))),
    (0x06, \<comment> \<open>ASL oper | zeropage | 5\<close>
      bindM (fetch B) (\<lambda>v1. bindM (zread B v1) (\<lambda>v2. bindM (asl v2) (\<lambda>v3. seqM (zwrite B v1 v3) (cost 1))))),
    (0x26, \<comment> \<open>ROL oper | zeropage | 5\<close>
      bindM (fetch B) (\<lambda>v1. bindM (zread B v1) (\<lambda>v2. bindM (rol v2) (\<lambda>v3. seqM (zwrite B v1 v3) (cost 1))))),
    (0x46, \<comment> \<open>LSR oper | zeropage | 5\<close>
      bindM (fetch B) (\<lambda>v1. bindM (zread B v1) (\<lambda>v2. bindM (lsr v2) (\<lambda>v3. seqM (zwrite B v1 v3) (cost 1))))),
    (0x66, \<comment> \<open>ROR oper | zeropage | 5\<close>
      bindM (fetch B) (\<lambda>v1. bindM (zread B v1) (\<lambda>v2. bindM (ror v2) (\<lambda>v3. seqM (zwrite B v1 v3) (cost 1))))),
    (0x86, \<comment> \<open>STX oper | zeropage | 3\<close>
      bindM (fetch B) (\<lambda>v1. bindM (getM cpu_x) (\<lambda>v2. zwrite B v1 v2))),
    (0xA6, \<comment> \<open>LDX oper | zeropage | 3\<close>
      bindM (fetch B) (\<lambda>v1. bindM (zread B v1) (\<lambda>v2. setX v2))),
    (0xC6, \<comment> \<open>DEC oper | zeropage | 5\<close>
      bindM (fetch B) (\<lambda>v1. bindM (zread B v1) (\<lambda>v2. bindM (setNZ (v2 - 1)) (\<lambda>v3. seqM (zwrite B v1 v3) (cost 1))))),
    (0xE6, \<comment> \<open>INC oper | zeropage | 5\<close>
      bindM (fetch B) (\<lambda>v1. bindM (zread B v1) (\<lambda>v2. bindM (setNZ (v2 + 1)) (\<lambda>v3. seqM (zwrite B v1 v3) (cost 1))))),
    (0x08, \<comment> \<open>PHP | implied | 3\<close>
      seqM (php B) (cost 1)),
    (0x28, \<comment> \<open>PLP | implied | 4\<close>
      seqM (plp B) (cost 2)),
    (0x48, \<comment> \<open>PHA | implied | 3\<close>
      bindM (getM cpu_a) (\<lambda>v1. seqM (push B v1) (cost 1))),
    (0x68, \<comment> \<open>PLA | implied | 4\<close>
      bindM (pop B) (\<lambda>v1. seqM (setA v1) (cost 2))),
    (0x88, \<comment> \<open>DEY | implied | 2\<close>
      bindM (getM cpu_y) (\<lambda>v1. seqM (setY (v1 - 1)) (cost 1))),
    (0xA8, \<comment> \<open>TAY | implied | 2\<close>
      bindM (getM cpu_a) (\<lambda>v1. seqM (setY v1) (cost 1))),
    (0xC8, \<comment> \<open>INY | implied | 2\<close>
      bindM (getM cpu_y) (\<lambda>v1. seqM (setY (v1 + 1)) (cost 1))),
    (0xE8, \<comment> \<open>INX | implied | 2\<close>
      bindM (getM cpu_x) (\<lambda>v1. seqM (setX (v1 + 1)) (cost 1))),
    (0x09, \<comment> \<open>ORA #oper | immediate | 2\<close>
      bindM (getM cpu_a) (\<lambda>v1. bindM (fetch B) (\<lambda>v2. setA (v1 OR v2)))),
    (0x29, \<comment> \<open>AND #oper | immediate | 2\<close>
      bindM (getM cpu_a) (\<lambda>v1. bindM (fetch B) (\<lambda>v2. setA (v1 AND v2)))),
    (0x49, \<comment> \<open>EOR #oper | immediate | 2\<close>
      bindM (getM cpu_a) (\<lambda>v1. bindM (fetch B) (\<lambda>v2. setA (v1 XOR v2)))),
    (0x69, \<comment> \<open>ADC #oper | immediate | 2\<close>
      bindM (fetch B) (\<lambda>v1. bindM (adc v1) (\<lambda>v2. setA v2))),
    (0x89, \<comment> \<open>NOP | immediate | 2\<close>
      cost 1),
    (0xA9, \<comment> \<open>LDA #oper | immediate | 2\<close>
      bindM (fetch B) (\<lambda>v1. setA v1)),
    (0xC9, \<comment> \<open>CMP #oper | immediate | 2\<close>
      bindM (fetch B) (\<lambda>v1. bindM (getM cpu_a) (\<lambda>v2. cmp v1 v2))),
    (0xE9, \<comment> \<open>SBC #oper | immediate | 2\<close>
      bindM (fetch B) (\<lambda>v1. bindM (sbc v1) (\<lambda>v2. setA v2))),
    (0x0A, \<comment> \<open>ASL A | accumulator | 2\<close>
      bindM (getM cpu_a) (\<lambda>v1. bindM (asl v1) (\<lambda>v2. seqM (setA v2) (cost 1)))),
    (0x2A, \<comment> \<open>ROL A | accumulator | 2\<close>
      bindM (getM cpu_a) (\<lambda>v1. bindM (rol v1) (\<lambda>v2. seqM (setA v2) (cost 1)))),
    (0x4A, \<comment> \<open>LSR A | accumulator | 2\<close>
      bindM (getM cpu_a) (\<lambda>v1. bindM (lsr v1) (\<lambda>v2. seqM (setA v2) (cost 1)))),
    (0x6A, \<comment> \<open>ROR A | accumulator | 2\<close>
      bindM (getM cpu_a) (\<lambda>v1. bindM (ror v1) (\<lambda>v2. seqM (setA v2) (cost 1)))),
    (0x8A, \<comment> \<open>TXA | implied | 2\<close>
      bindM (getM cpu_x) (\<lambda>v1. seqM (setA v1) (cost 1))),
    (0xAA, \<comment> \<open>TAX | implied | 2\<close>
      bindM (getM cpu_a) (\<lambda>v1. seqM (setX v1) (cost 1))),
    (0xCA, \<comment> \<open>DEX | implied | 2\<close>
      bindM (getM cpu_x) (\<lambda>v1. seqM (setX (v1 - 1)) (cost 1))),
    (0xEA, \<comment> \<open>NOP | implied | 2\<close>
      cost 1),
    (0x0C, \<comment> \<open>NOP | absolute | 4\<close>
      cost 3),
    (0x2C, \<comment> \<open>BIT oper | absolute | 4\<close>
      bindM (abs_addr B) (\<lambda>(v1, v2). bindM (read B v1 v2) (\<lambda>v3. bit_op v3))),
    (0x4C, \<comment> \<open>JMP oper | absolute | 3\<close>
      bindM (abs_addr B) (\<lambda>(v1, v2). setPC v1 v2)),
    (0x6C, \<comment> \<open>JMP (oper) | indirect | 5\<close>
      bindM (abs_addr B) (\<lambda>(v1, v2). bindM (read B v1 v2) (\<lambda>v3. bindM (read B (v1 + 1) v2) (\<lambda>v4. setPC v3 v4)))),
    (0x8C, \<comment> \<open>STY oper | absolute | 4\<close>
      bindM (fetch B) (\<lambda>v1. bindM (fetch B) (\<lambda>v2. bindM (getM cpu_y) (\<lambda>v3. write' B v1 v2 v3)))),
    (0xAC, \<comment> \<open>LDY oper | absolute | 4\<close>
      bindM (abs_addr B) (\<lambda>(v1, v2). bindM (read B v1 v2) (\<lambda>v3. setY v3))),
    (0xCC, \<comment> \<open>CPY oper | absolute | 4\<close>
      bindM (abs_addr B) (\<lambda>(v1, v2). bindM (read B v1 v2) (\<lambda>v3. bindM (getM cpu_y) (\<lambda>v4. cmp v3 v4)))),
    (0xEC, \<comment> \<open>CPX oper | absolute | 4\<close>
      bindM (abs_addr B) (\<lambda>(v1, v2). bindM (read B v1 v2) (\<lambda>v3. bindM (getM cpu_x) (\<lambda>v4. cmp v3 v4)))),
    (0x0D, \<comment> \<open>ORA oper | absolute | 4\<close>
      bindM (getM cpu_a) (\<lambda>v1. bindM (abs_addr B) (\<lambda>(v2, v3). bindM (read B v2 v3) (\<lambda>v4. setA (v1 OR v4))))),
    (0x2D, \<comment> \<open>AND oper | absolute | 4\<close>
      bindM (getM cpu_a) (\<lambda>v1. bindM (abs_addr B) (\<lambda>(v2, v3). bindM (read B v2 v3) (\<lambda>v4. setA (v1 AND v4))))),
    (0x4D, \<comment> \<open>EOR oper | absolute | 4\<close>
      bindM (getM cpu_a) (\<lambda>v1. bindM (abs_addr B) (\<lambda>(v2, v3). bindM (read B v2 v3) (\<lambda>v4. setA (v1 XOR v4))))),
    (0x6D, \<comment> \<open>ADC oper | absolute | 4\<close>
      bindM (abs_addr B) (\<lambda>(v1, v2). bindM (read B v1 v2) (\<lambda>v3. bindM (adc v3) (\<lambda>v4. setA v4)))),
    (0x8D, \<comment> \<open>STA oper | absolute | 4\<close>
      bindM (fetch B) (\<lambda>v1. bindM (fetch B) (\<lambda>v2. bindM (getM cpu_a) (\<lambda>v3. write' B v1 v2 v3)))),
    (0xAD, \<comment> \<open>LDA oper | absolute | 4\<close>
      bindM (abs_addr B) (\<lambda>(v1, v2). bindM (read B v1 v2) (\<lambda>v3. setA v3))),
    (0xCD, \<comment> \<open>CMP oper | absolute | 4\<close>
      bindM (abs_addr B) (\<lambda>(v1, v2). bindM (read B v1 v2) (\<lambda>v3. bindM (getM cpu_a) (\<lambda>v4. cmp v3 v4)))),
    (0xED, \<comment> \<open>SBC oper | absolute | 4\<close>
      bindM (abs_addr B) (\<lambda>(v1, v2). bindM (read B v1 v2) (\<lambda>v3. bindM (sbc v3) (\<lambda>v4. setA v4)))),
    (0x0E, \<comment> \<open>ASL oper | absolute | 6\<close>
      bindM (abs_addr B) (\<lambda>(v1, v2). bindM (read B v1 v2) (\<lambda>v3. bindM (asl v3) (\<lambda>v4. seqM (write' B v1 v2 v4) (cost 1))))),
    (0x2E, \<comment> \<open>ROL oper | absolute | 6\<close>
      bindM (abs_addr B) (\<lambda>(v1, v2). bindM (read B v1 v2) (\<lambda>v3. bindM (rol v3) (\<lambda>v4. seqM (write' B v1 v2 v4) (cost 1))))),
    (0x4E, \<comment> \<open>LSR oper | absolute | 6\<close>
      bindM (abs_addr B) (\<lambda>(v1, v2). bindM (read B v1 v2) (\<lambda>v3. bindM (lsr v3) (\<lambda>v4. seqM (write' B v1 v2 v4) (cost 1))))),
    (0x6E, \<comment> \<open>ROR oper | absolute | 6\<close>
      bindM (abs_addr B) (\<lambda>(v1, v2). bindM (read B v1 v2) (\<lambda>v3. bindM (ror v3) (\<lambda>v4. seqM (write' B v1 v2 v4) (cost 1))))),
    (0x8E, \<comment> \<open>STX oper | absolute | 4\<close>
      bindM (fetch B) (\<lambda>v1. bindM (fetch B) (\<lambda>v2. bindM (getM cpu_x) (\<lambda>v3. write' B v1 v2 v3)))),
    (0xAE, \<comment> \<open>LDX oper | absolute | 4\<close>
      bindM (abs_addr B) (\<lambda>(v1, v2). bindM (read B v1 v2) (\<lambda>v3. setX v3))),
    (0xCE, \<comment> \<open>DEC oper | absolute | 6\<close>
      bindM (abs_addr B) (\<lambda>(v1, v2). bindM (read B v1 v2) (\<lambda>v3. bindM (setNZ (v3 - 1)) (\<lambda>v4. seqM (write' B v1 v2 v4) (cost 1))))),
    (0xEE, \<comment> \<open>INC oper | absolute | 6\<close>
      bindM (abs_addr B) (\<lambda>(v1, v2). bindM (read B v1 v2) (\<lambda>v3. bindM (setNZ (v3 + 1)) (\<lambda>v4. seqM (write' B v1 v2 v4) (cost 1))))),
    (0x10, \<comment> \<open>BPL oper | relative | 2**\<close>
      bindM (hasF flagN) (\<lambda>v1. branch B (\<not> v1))),
    (0x30, \<comment> \<open>BMI oper | relative | 2**\<close>
      bindM (hasF flagN) (\<lambda>v1. branch B v1)),
    (0x50, \<comment> \<open>BVC oper | relative | 2**\<close>
      bindM (hasF flagV) (\<lambda>v1. branch B (\<not> v1))),
    (0x70, \<comment> \<open>BVS oper | relative | 2**\<close>
      bindM (hasF flagV) (\<lambda>v1. branch B v1)),
    (0x90, \<comment> \<open>BCC oper | relative | 2**\<close>
      bindM (hasF flagC) (\<lambda>v1. branch B (\<not> v1))),
    (0xB0, \<comment> \<open>BCS oper | relative | 2**\<close>
      bindM (hasF flagC) (\<lambda>v1. branch B v1)),
    (0xD0, \<comment> \<open>BNE oper | relative | 2**\<close>
      bindM (hasF flagZ) (\<lambda>v1. branch B (\<not> v1))),
    (0xF0, \<comment> \<open>BEQ oper | relative | 2**\<close>
      bindM (hasF flagZ) (\<lambda>v1. branch B v1)),
    (0x11, \<comment> \<open>ORA (oper),Y | (indirect),Y | 5*\<close>
      bindM (indY B) (\<lambda>(v1, v2, v3). bindM (getM cpu_a) (\<lambda>v4. bindM (read B v1 v2) (\<lambda>v5. seqM (setA (v4 OR v5)) (cost v3))))),
    (0x31, \<comment> \<open>AND (oper),Y | (indirect),Y | 5*\<close>
      bindM (indY B) (\<lambda>(v1, v2, v3). bindM (getM cpu_a) (\<lambda>v4. bindM (read B v1 v2) (\<lambda>v5. seqM (setA (v4 AND v5)) (cost v3))))),
    (0x51, \<comment> \<open>EOR (oper),Y | (indirect),Y | 5*\<close>
      bindM (indY B) (\<lambda>(v1, v2, v3). bindM (getM cpu_a) (\<lambda>v4. bindM (read B v1 v2) (\<lambda>v5. seqM (setA (v4 XOR v5)) (cost v3))))),
    (0x71, \<comment> \<open>ADC (oper),Y | (indirect),Y | 5*\<close>
      bindM (indY B) (\<lambda>(v1, v2, v3). bindM (read B v1 v2) (\<lambda>v4. bindM (adc v4) (\<lambda>v5. seqM (setA v5) (cost v3))))),
    (0x91, \<comment> \<open>STA (oper),Y | (indirect),Y | 6\<close>
      bindM (indY B) (\<lambda>(v1, v2, v3). bindM (getM cpu_a) (\<lambda>v4. seqM (write' B v1 v2 v4) (cost 1)))),
    (0xB1, \<comment> \<open>LDA (oper),Y | (indirect),Y | 5*\<close>
      bindM (indY B) (\<lambda>(v1, v2, v3). bindM (read B v1 v2) (\<lambda>v4. seqM (setA v4) (cost v3)))),
    (0xD1, \<comment> \<open>CMP (oper),Y | (indirect),Y | 5*\<close>
      bindM (indY B) (\<lambda>(v1, v2, v3). bindM (read B v1 v2) (\<lambda>v4. bindM (getM cpu_a) (\<lambda>v5. seqM (cmp v4 v5) (cost v3))))),
    (0xF1, \<comment> \<open>SBC (oper),Y | (indirect),Y | 5*\<close>
      bindM (indY B) (\<lambda>(v1, v2, v3). bindM (read B v1 v2) (\<lambda>v4. bindM (sbc v4) (\<lambda>v5. seqM (setA v5) (cost v3))))),
    (0x12, \<comment> \<open>HLT | 1\<close>
      modM (\<lambda>c. c\<lparr>halted := True\<rparr>)),
    (0x32, \<comment> \<open>HLT | 1\<close>
      modM (\<lambda>c. c\<lparr>halted := True\<rparr>)),
    (0x52, \<comment> \<open>HLT | 1\<close>
      modM (\<lambda>c. c\<lparr>halted := True\<rparr>)),
    (0x72, \<comment> \<open>HLT | 1\<close>
      modM (\<lambda>c. c\<lparr>halted := True\<rparr>)),
    (0x92, \<comment> \<open>HLT | 1\<close>
      modM (\<lambda>c. c\<lparr>halted := True\<rparr>)),
    (0xB2, \<comment> \<open>HLT | 1\<close>
      modM (\<lambda>c. c\<lparr>halted := True\<rparr>)),
    (0xD2, \<comment> \<open>HLT | 1\<close>
      modM (\<lambda>c. c\<lparr>halted := True\<rparr>)),
    (0xF2, \<comment> \<open>HLT | 1\<close>
      modM (\<lambda>c. c\<lparr>halted := True\<rparr>)),
    (0x14, \<comment> \<open>NOP | zeropage,X | 4\<close>
      cost 3),
    (0x34, \<comment> \<open>NOP | zeropage,X | 4\<close>
      cost 3),
    (0x54, \<comment> \<open>NOP | zeropage,X | 4\<close>
      cost 3),
    (0x74, \<comment> \<open>NOP | zeropage,X | 4\<close>
      cost 3),
    (0x94, \<comment> \<open>STY oper,X | zeropage,X | 4\<close>
      bindM (fetch B) (\<lambda>v1. bindM (getM cpu_x) (\<lambda>v2. bindM (getM cpu_y) (\<lambda>v3. seqM (zwrite B (v1 + v2) v3) (cost 1))))),
    (0xB4, \<comment> \<open>LDY oper,X | zeropage,X | 4\<close>
      bindM (fetch B) (\<lambda>v1. bindM (getM cpu_x) (\<lambda>v2. bindM (zread B (v1 + v2)) (\<lambda>v3. seqM (setY v3) (cost 1))))),
    (0xD4, \<comment> \<open>NOP | zeropage,X | 4\<close>
      cost 3),
    (0xF4, \<comment> \<open>NOP | zeropage,X | 4\<close>
      cost 3),
    (0x15, \<comment> \<open>ORA oper,X | zeropage,X | 4\<close>
      bindM (getM cpu_a) (\<lambda>v1. bindM (fetch B) (\<lambda>v2. bindM (getM cpu_x) (\<lambda>v3. bindM (zread B (v2 + v3)) (\<lambda>v4. seqM (setA (v1 OR v4)) (cost 1)))))),
    (0x35, \<comment> \<open>AND oper,X | zeropage,X | 4\<close>
      bindM (getM cpu_a) (\<lambda>v1. bindM (fetch B) (\<lambda>v2. bindM (getM cpu_x) (\<lambda>v3. bindM (zread B (v2 + v3)) (\<lambda>v4. seqM (setA (v1 AND v4)) (cost 1)))))),
    (0x55, \<comment> \<open>EOR oper,X | zeropage,X | 4\<close>
      bindM (getM cpu_a) (\<lambda>v1. bindM (fetch B) (\<lambda>v2. bindM (getM cpu_x) (\<lambda>v3. bindM (zread B (v2 + v3)) (\<lambda>v4. seqM (setA (v1 XOR v4)) (cost 1)))))),
    (0x75, \<comment> \<open>ADC oper,X | zeropage,X | 4\<close>
      bindM (fetch B) (\<lambda>v1. bindM (getM cpu_x) (\<lambda>v2. bindM (zread B (v1 + v2)) (\<lambda>v3. bindM (adc v3) (\<lambda>v4. seqM (setA v4) (cost 1)))))),
    (0x95, \<comment> \<open>STA oper,X | zeropage,X | 4\<close>
      bindM (fetch B) (\<lambda>v1. bindM (getM cpu_x) (\<lambda>v2. bindM (getM cpu_a) (\<lambda>v3. seqM (zwrite B (v1 + v2) v3) (cost 1))))),
    (0xB5, \<comment> \<open>LDA oper,X | zeropage,X | 4\<close>
      bindM (fetch B) (\<lambda>v1. bindM (getM cpu_x) (\<lambda>v2. bindM (zread B (v1 + v2)) (\<lambda>v3. seqM (setA v3) (cost 1))))),
    (0xD5, \<comment> \<open>CMP oper,X | zeropage,X | 4\<close>
      bindM (fetch B) (\<lambda>v1. bindM (getM cpu_x) (\<lambda>v2. bindM (zread B (v1 + v2)) (\<lambda>v3. bindM (getM cpu_a) (\<lambda>v4. seqM (cmp v3 v4) (cost 1)))))),
    (0xF5, \<comment> \<open>SBC oper,X | zeropage,X | 4\<close>
      bindM (fetch B) (\<lambda>v1. bindM (getM cpu_x) (\<lambda>v2. bindM (zread B (v1 + v2)) (\<lambda>v3. bindM (sbc v3) (\<lambda>v4. seqM (setA v4) (cost 1)))))),
    (0x16, \<comment> \<open>ASL oper,X | zeropage,X | 6\<close>
      bindM (fetch B) (\<lambda>v1. bindM (getM cpu_x) (\<lambda>v2. bindM (zread B (v1 + v2)) (\<lambda>v3. bindM (asl v3) (\<lambda>v4. seqM (zwrite B (v1 + v2) v4) (cost 2)))))),
    (0x36, \<comment> \<open>ROL oper,X | zeropage,X | 6\<close>
      bindM (fetch B) (\<lambda>v1. bindM (getM cpu_x) (\<lambda>v2. bindM (zread B (v1 + v2)) (\<lambda>v3. bindM (rol v3) (\<lambda>v4. seqM (zwrite B (v1 + v2) v4) (cost 2)))))),
    (0x56, \<comment> \<open>LSR oper,X | zeropage,X | 6\<close>
      bindM (fetch B) (\<lambda>v1. bindM (getM cpu_x) (\<lambda>v2. bindM (zread B (v1 + v2)) (\<lambda>v3. bindM (lsr v3) (\<lambda>v4. seqM (zwrite B (v1 + v2) v4) (cost 2)))))),
    (0x76, \<comment> \<open>ROR oper,X | zeropage,X | 6\<close>
      bindM (fetch B) (\<lambda>v1. bindM (getM cpu_x) (\<lambda>v2. bindM (zread B (v1 + v2)) (\<lambda>v3. bindM (ror v3) (\<lambda>v4. seqM (zwrite B (v1 + v2) v4) (cost 2)))))),
    (0x96, \<comment> \<open>STX oper,Y | zeropage,Y | 4\<close>
      bindM (fetch B) (\<lambda>v1. bindM (getM cpu_y) (\<lambda>v2. bindM (getM cpu_x) (\<lambda>v3. seqM (zwrite B (v1 + v2) v3) (cost 1))))),
    (0xB6, \<comment> \<open>LDX oper,Y | zeropage,Y | 4\<close>
      bindM (fetch B) (\<lambda>v1. bindM (getM cpu_y) (\<lambda>v2. bindM (zread B (v1 + v2)) (\<lambda>v3. seqM (setX v3) (cost 1))))),
    (0xD6, \<comment> \<open>DEC oper,X | zeropage,X | 6\<close>
      bindM (fetch B) (\<lambda>v1. bindM (getM cpu_x) (\<lambda>v2. bindM (zread B (v1 + v2)) (\<lambda>v3. bindM (setNZ (v3 - 1)) (\<lambda>v4. seqM (zwrite B (v1 + v2) v4) (cost 2)))))),
    (0xF6, \<comment> \<open>INC oper,X | zeropage,X | 6\<close>
      bindM (fetch B) (\<lambda>v1. bindM (getM cpu_x) (\<lambda>v2. bindM (zread B (v1 + v2)) (\<lambda>v3. bindM (setNZ (v3 + 1)) (\<lambda>v4. seqM (zwrite B (v1 + v2) v4) (cost 2)))))),
    (0x18, \<comment> \<open>CLC | implied | 2\<close>
      seqM (setC False) (cost 1)),
    (0x38, \<comment> \<open>SEC | implied | 2\<close>
      seqM (setC True) (cost 1)),
    (0x58, \<comment> \<open>CLI | implied | 2\<close>
      seqM (setI False) (cost 1)),
    (0x78, \<comment> \<open>SEI | implied | 2\<close>
      seqM (setI True) (cost 1)),
    (0x98, \<comment> \<open>TYA | implied | 2\<close>
      bindM (getM cpu_y) (\<lambda>v1. seqM (setA v1) (cost 1))),
    (0xB8, \<comment> \<open>CLV | implied | 2\<close>
      seqM (setF False flagV) (cost 1)),
    (0xD8, \<comment> \<open>CLD | implied | 2\<close>
      seqM (setF False flagD) (cost 1)),
    (0xF8, \<comment> \<open>SED | implied | 2\<close>
      seqM (setF True flagD) (cost 1)),
    (0x19, \<comment> \<open>ORA oper,Y | absolute,Y | 4*\<close>
      bindM (getM cpu_y) (\<lambda>v1. bindM (absN B v1) (\<lambda>(v2, v3, v4). bindM (getM cpu_a) (\<lambda>v5. bindM (read B v2 v3) (\<lambda>v6. seqM (setA (v5 OR v6)) (cost v4)))))),
    (0x39, \<comment> \<open>AND oper,Y | absolute,Y | 4*\<close>
      bindM (getM cpu_y) (\<lambda>v1. bindM (absN B v1) (\<lambda>(v2, v3, v4). bindM (getM cpu_a) (\<lambda>v5. bindM (read B v2 v3) (\<lambda>v6. seqM (setA (v5 AND v6)) (cost v4)))))),
    (0x59, \<comment> \<open>EOR oper,Y | absolute,Y | 4*\<close>
      bindM (getM cpu_y) (\<lambda>v1. bindM (absN B v1) (\<lambda>(v2, v3, v4). bindM (getM cpu_a) (\<lambda>v5. bindM (read B v2 v3) (\<lambda>v6. seqM (setA (v5 XOR v6)) (cost v4)))))),
    (0x79, \<comment> \<open>ADC oper,Y | absolute,Y | 4*\<close>
      bindM (getM cpu_y) (\<lambda>v1. bindM (absN B v1) (\<lambda>(v2, v3, v4). bindM (read B v2 v3) (\<lambda>v5. bindM (adc v5) (\<lambda>v6. seqM (setA v6) (cost v4)))))),
    (0x99, \<comment> \<open>STA oper,Y | absolute,Y | 5\<close>
      bindM (getM cpu_y) (\<lambda>v1. bindM (absN B v1) (\<lambda>(v2, v3, v4). bindM (getM cpu_a) (\<lambda>v5. seqM (write' B v2 v3 v5) (cost 1))))),
    (0xB9, \<comment> \<open>LDA oper,Y | absolute,Y | 4*\<close>
      bindM (getM cpu_y) (\<lambda>v1. bindM (absN B v1) (\<lambda>(v2, v3, v4). bindM (read B v2 v3) (\<lambda>v5. seqM (setA v5) (cost v4))))),
    (0xD9, \<comment> \<open>CMP oper,Y | absolute,Y | 4*\<close>
      bindM (getM cpu_y) (\<lambda>v1. bindM (absN B v1) (\<lambda>(v2, v3, v4). bindM (read B v2 v3) (\<lambda>v5. bindM (getM cpu_a) (\<lambda>v6. seqM (cmp v5 v6) (cost v4)))))),
    (0xF9, \<comment> \<open>SBC oper,Y | absolute,Y | 4*\<close>
      bindM (getM cpu_y) (\<lambda>v1. bindM (absN B v1) (\<lambda>(v2, v3, v4). bindM (read B v2 v3) (\<lambda>v5. bindM (sbc v5) (\<lambda>v6. seqM (setA v6) (cost v4)))))),
    (0x1A, \<comment> \<open>NOP | implied | 2\<close>
      cost 1),
    (0x3A, \<comment> \<open>NOP | implied | 2\<close>
      cost 1),
    (0x5A, \<comment> \<open>NOP | implied | 2\<close>
      cost 1),
    (0x7A, \<comment> \<open>NOP | implied | 2\<close>
      cost 1),
    (0x9A, \<comment> \<open>TXS | implied | 2\<close>
      bindM (getM cpu_x) (\<lambda>v1. seqM (modM (\<lambda>c. c\<lparr>cpu_s := v1\<rparr>)) (cost 1))),
    (0xBA, \<comment> \<open>TSX | implied | 2\<close>
      bindM (getM cpu_s) (\<lambda>v1. seqM (setX v1) (cost 1))),
    (0xDA, \<comment> \<open>NOP | implied | 2\<close>
      cost 1),
    (0xFA, \<comment> \<open>NOP | implied | 2\<close>
      cost 1),
    (0x1C, \<comment> \<open>NOP | absolute,X | 4*\<close>
      cost 3),
    (0x3C, \<comment> \<open>NOP | absolute,X | 4*\<close>
      cost 3),
    (0x5C, \<comment> \<open>NOP | absolute,X | 4*\<close>
      cost 3),
    (0x7C, \<comment> \<open>NOP | absolute,X | 4*\<close>
      cost 3),
    (0xBC, \<comment> \<open>LDY oper,X | absolute,X | 4*\<close>
      bindM (getM cpu_x) (\<lambda>v1. bindM (absN B v1) (\<lambda>(v2, v3, v4). bindM (read B v2 v3) (\<lambda>v5. seqM (setY v5) (cost v4))))),
    (0xDC, \<comment> \<open>NOP | absolute,X | 4*\<close>
      cost 3),
    (0xFC, \<comment> \<open>NOP | absolute,X | 4*\<close>
      cost 3),
    (0x1D, \<comment> \<open>ORA oper,X | absolute,X | 4*\<close>
      bindM (getM cpu_x) (\<lambda>v1. bindM (absN B v1) (\<lambda>(v2, v3, v4). bindM (getM cpu_a) (\<lambda>v5. bindM (read B v2 v3) (\<lambda>v6. seqM (setA (v5 OR v6)) (cost v4)))))),
    (0x3D, \<comment> \<open>AND oper,X | absolute,X | 4*\<close>
      bindM (getM cpu_x) (\<lambda>v1. bindM (absN B v1) (\<lambda>(v2, v3, v4). bindM (getM cpu_a) (\<lambda>v5. bindM (read B v2 v3) (\<lambda>v6. seqM (setA (v5 AND v6)) (cost v4)))))),
    (0x5D, \<comment> \<open>EOR oper,X | absolute,X | 4*\<close>
      bindM (getM cpu_x) (\<lambda>v1. bindM (absN B v1) (\<lambda>(v2, v3, v4). bindM (getM cpu_a) (\<lambda>v5. bindM (read B v2 v3) (\<lambda>v6. seqM (setA (v5 XOR v6)) (cost v4)))))),
    (0x7D, \<comment> \<open>ADC oper,X | absolute,X | 4*\<close>
      bindM (getM cpu_x) (\<lambda>v1. bindM (absN B v1) (\<lambda>(v2, v3, v4). bindM (read B v2 v3) (\<lambda>v5. bindM (adc v5) (\<lambda>v6. seqM (setA v6) (cost v4)))))),
    (0x9D, \<comment> \<open>STA oper,X | absolute,X | 5\<close>
      bindM (getM cpu_x) (\<lambda>v1. bindM (absN B v1) (\<lambda>(v2, v3, v4). bindM (getM cpu_a) (\<lambda>v5. seqM (write' B v2 v3 v5) (cost 1))))),
    (0xBD, \<comment> \<open>LDA oper,X | absolute,X | 4*\<close>
      bindM (getM cpu_x) (\<lambda>v1. bindM (absN B v1) (\<lambda>(v2, v3, v4). bindM (read B v2 v3) (\<lambda>v5. seqM (setA v5) (cost v4))))),
    (0xDD, \<comment> \<open>CMP oper,X | absolute,X | 4*\<close>
      bindM (getM cpu_x) (\<lambda>v1. bindM (absN B v1) (\<lambda>(v2, v3, v4). bindM (read B v2 v3) (\<lambda>v5. bindM (getM cpu_a) (\<lambda>v6. seqM (cmp v5 v6) (cost v4)))))),
    (0xFD, \<comment> \<open>SBC oper,X | absolute,X | 4*\<close>
      bindM (getM cpu_x) (\<lambda>v1. bindM (absN B v1) (\<lambda>(v2, v3, v4). bindM (read B v2 v3) (\<lambda>v5. bindM (sbc v5) (\<lambda>v6. seqM (setA v6) (cost v4)))))),
    (0x1E, \<comment> \<open>ASL oper,X | absolute,X | 7\<close>
      bindM (getM cpu_x) (\<lambda>v1. bindM (absN B v1) (\<lambda>(v2, v3, v4). bindM (read B v2 v3) (\<lambda>v5. bindM (asl v5) (\<lambda>v6. seqM (write' B v2 v3 v6) (cost 2)))))),
    (0x3E, \<comment> \<open>ROL oper,X | absolute,X | 7\<close>
      bindM (getM cpu_x) (\<lambda>v1. bindM (absN B v1) (\<lambda>(v2, v3, v4). bindM (read B v2 v3) (\<lambda>v5. bindM (rol v5) (\<lambda>v6. seqM (write' B v2 v3 v6) (cost 2)))))),
    (0x5E, \<comment> \<open>LSR oper,X | absolute,X | 7\<close>
      bindM (getM cpu_x) (\<lambda>v1. bindM (absN B v1) (\<lambda>(v2, v3, v4). bindM (read B v2 v3) (\<lambda>v5. bindM (lsr v5) (\<lambda>v6. seqM (write' B v2 v3 v6) (cost 2)))))),
    (0x7E, \<comment> \<open>ROR oper,X | absolute,X | 7\<close>
      bindM (getM cpu_x) (\<lambda>v1. bindM (absN B v1) (\<lambda>(v2, v3, v4). bindM (read B v2 v3) (\<lambda>v5. bindM (ror v5) (\<lambda>v6. seqM (write' B v2 v3 v6) (cost 2)))))),
    (0xBE, \<comment> \<open>LDX oper,Y | absolute,Y | 4*\<close>
      bindM (getM cpu_y) (\<lambda>v1. bindM (absN B v1) (\<lambda>(v2, v3, v4). bindM (read B v2 v3) (\<lambda>v5. seqM (setX v5) (cost v4))))),
    (0xDE, \<comment> \<open>DEC oper,X | absolute,X | 7\<close>
      bindM (getM cpu_x) (\<lambda>v1. bindM (absN B v1) (\<lambda>(v2, v3, v4). bindM (read B v2 v3) (\<lambda>v5. bindM (setNZ (v5 - 1)) (\<lambda>v6. seqM (write' B v2 v3 v6) (cost 2)))))),
    (0xFE, \<comment> \<open>INC oper,X | absolute,X | 7\<close>
      bindM (getM cpu_x) (\<lambda>v1. bindM (absN B v1) (\<lambda>(v2, v3, v4). bindM (read B v2 v3) (\<lambda>v5. bindM (setNZ (v5 + 1)) (\<lambda>v6. seqM (write' B v2 v3 v6) (cost 2))))))
  ]"

text \<open>\<open>%02X\<close> of a byte, and the message of the \<open>default\<close> case.\<close>

definition hexdigit :: "nat \<Rightarrow> char" where
  "hexdigit n = ''0123456789ABCDEF'' ! n"

definition hex2 :: "byte \<Rightarrow> string" where
  "hex2 b = [hexdigit (unat b div 16), hexdigit (unat b mod 16)]"

definition invalid_op_code :: "byte \<Rightarrow> byte \<Rightarrow> byte \<Rightarrow> string" where
  "invalid_op_code h l b = ''m6502: invalid op code: '' @ hex2 h @ hex2 l @ '': '' @ hex2 b"

definition tick :: "'b Bus \<Rightarrow> ('b, error option) exec" where
  "tick B = seqM (modM (\<lambda>c. c\<lparr>cycles := 0\<rparr>))
     (bindM (getM pcl) (\<lambda>pcl0. bindM (getM pch) (\<lambda>pch0.
      bindM (fetch B) (\<lambda>code.
        case map_of (optable B) code of
          Some body \<Rightarrow>
            seqM body (bindM (getM halted) (\<lambda>hl.
              retM (if hl then Some ErrHalted else None)))
        | None \<Rightarrow>
            bindM (read B pcl0 pch0) (\<lambda>b.
              retM (Some (Error (invalid_op_code pch0 pcl0 b))))))))"

section \<open>The public methods\<close>

text \<open>
  \<open>Step\<close> returns \<open>(cycles, err)\<close>, or panics itself when the recovered value is not a
  string (the type assertion \<open>r.(string)\<close> in the deferred function fails). The named
  result \<open>cycles\<close> is still 0 when \<open>tick\<close> panics.
\<close>

datatype step_result = Returned nat "error option" | Panicked

definition Step :: "'b Bus \<Rightarrow> 'b CPU \<Rightarrow> step_result \<times> 'b CPU" where
  "Step B c =
     (if halted c then (Returned 0 (Some ErrHalted), c)
      else case tick B c of
          (Inr (Some e), c') \<Rightarrow> (Returned 0 (Some e), c')
        | (Inr None, c') \<Rightarrow> (Returned (cycles c') None, c')
        | (Inl (PanicString msg), c') \<Rightarrow> (Returned 0 (Some (Error msg)), c')
        | (Inl PanicOther, c') \<Rightarrow> (Panicked, c'))"

definition Reset :: "'b Bus \<Rightarrow> ('b, unit) exec" where
  "Reset B =
     seqM (modM (\<lambda>c. c\<lparr>cpu_s := 0xFF, cpu_a := 0x00, cpu_x := 0x00, cpu_y := 0x00\<rparr>))
    (bindM (busRead B 0xFC 0xFF) (\<lambda>l. seqM (modM (\<lambda>c. c\<lparr>pcl := l\<rparr>))
    (bindM (busRead B 0xFD 0xFF) (\<lambda>h. seqM (modM (\<lambda>c. c\<lparr>pch := h\<rparr>))
    (modM (\<lambda>c. c\<lparr>cpu_p := 0, halted := False, cycles := 0\<rparr>))))))"

text \<open>\<open>New\<close>: the zero-valued struct bound to the bus, then \<open>Reset\<close>.\<close>

definition New :: "'b Bus \<Rightarrow> 'b \<Rightarrow> (panic + unit) \<times> 'b CPU" where
  "New B b = Reset B \<lparr>bus = b, cpu_a = 0, cpu_x = 0, cpu_y = 0, cpu_s = 0, cpu_p = 0,
     pcl = 0, pch = 0, cycles = 0, halted = False\<rparr>"

definition PC :: "byte \<Rightarrow> byte \<Rightarrow> 'b CPU \<Rightarrow> 'b CPU" where
  "PC lo hi c = c\<lparr>pcl := lo, pch := hi\<rparr>"

definition interrupt :: "'b Bus \<Rightarrow> byte \<Rightarrow> byte \<Rightarrow> ('b, unit) exec" where
  "interrupt B l h =
     seqM (bindM (getM id) (\<lambda>c. busWrite B (cpu_s c) 0x01 (pch c)))
    (seqM (modM (\<lambda>c. c\<lparr>cpu_s := cpu_s c - 1\<rparr>))
    (seqM (bindM (getM id) (\<lambda>c. busWrite B (cpu_s c) 0x01 (pcl c)))
    (seqM (modM (\<lambda>c. c\<lparr>cpu_s := cpu_s c - 1\<rparr>))
    (seqM (bindM (getM id) (\<lambda>c. busWrite B (cpu_s c) 0x01 (cpu_p c OR flagU)))
    (seqM (modM (\<lambda>c. c\<lparr>cpu_s := cpu_s c - 1\<rparr>))
    (seqM (modM (\<lambda>c. c\<lparr>pcl := l, pch := h\<rparr>))
          (modM (\<lambda>c. c\<lparr>cpu_p := cpu_p c OR flagI\<rparr>))))))))"

definition NMI :: "'b Bus \<Rightarrow> ('b, unit) exec" where
  "NMI B = bindM (busRead B 0xFA 0xFF) (\<lambda>l. bindM (busRead B 0xFB 0xFF) (\<lambda>h.
     interrupt B l h))"

definition IRQ :: "'b Bus \<Rightarrow> ('b, unit) exec" where
  "IRQ B = bindM (hasF flagI) (\<lambda>masked.
     if \<not> masked then
       bindM (busRead B 0xFE 0xFF) (\<lambda>l. bindM (busRead B 0xFF 0xFF) (\<lambda>h.
         interrupt B l h))
     else retM ())"

section \<open>The buses of the test file\<close>

text \<open>
  \<open>memoryBus\<close>: 64 KiB of memory indexed by \<open>uint16(h)<<8 | uint16(l)\<close>; it never panics.
  \<open>panicBus\<close>: \<open>Read\<close> panics with the string \<open>foo\<close> when the low address byte is 0.
\<close>

definition memoryBus :: "(16 word \<Rightarrow> byte) Bus" where
  "memoryBus = \<lparr>
     Read = (\<lambda>mem l h. (Inr (mem (push_bit 8 (ucast h) OR ucast l)), mem)),
     Write = (\<lambda>mem l h data. (None, mem(push_bit 8 (ucast h) OR ucast l := data)))\<rparr>"

definition panicBus :: "unit Bus" where
  "panicBus = \<lparr>
     Read = (\<lambda>u l h. if l = 0x00 then (Inl (PanicString ''foo''), u) else (Inr 0x00, u)),
     Write = (\<lambda>u l h data. (None, u))\<rparr>"

section \<open>The documented opcode table (OPCODES.md)\<close>





definition branches :: "byte list" where
  "branches = [0x10, 0x30, 0x50, 0x70, 0x90, 0xB0, 0xD0, 0xF0]"

text \<open>
  Whether a branch opcode branches under status \<open>f\<close>: BPL (N clear), BMI (N set),
  BVC (V clear), BVS (V set), BCC (C clear), BCS (C set), BNE (Z clear), BEQ (Z set).
\<close>

definition branch_taken :: "byte \<Rightarrow> byte \<Rightarrow> bool" where
  "branch_taken code f =
     (if code = 0x10 then f AND 0x80 = 0 else if code = 0x30 then f AND 0x80 \<noteq> 0
      else if code = 0x50 then f AND 0x40 = 0 else if code = 0x70 then f AND 0x40 \<noteq> 0
      else if code = 0x90 then f AND 0x01 = 0 else if code = 0xB0 then f AND 0x01 \<noteq> 0
      else if code = 0xD0 then f AND 0x02 = 0 else f AND 0x02 \<noteq> 0)"

text \<open>
  Addresses as numbers: \<open>addr l h\<close> is the 16-bit address with low byte \<open>l\<close> and high
  byte \<open>h\<close>; the page of an address is the address divided by 256. The target of a
  branch with displacement byte \<open>d\<close> is the address of the next instruction plus the
  displacement read as a signed 8-bit number, modulo \<open>2^16\<close>.
\<close>

definition addr :: "byte \<Rightarrow> byte \<Rightarrow> int" where
  "addr l h = 256 * uint h + uint l"

definition branch_target :: "int \<Rightarrow> byte \<Rightarrow> int" where
  "branch_target next d = (next + sint d) mod 65536"


definition branch_extra :: "bool \<Rightarrow> int \<Rightarrow> byte \<Rightarrow> nat" where
  "branch_extra taken next d =
     (if \<not> taken then 0
      else if branch_target next d div 256 = next div 256 then 1 else 2)"


section \<open>Callers and opcode groups\<close>

text \<open>The opcodes documented as HLT.\<close>

definition hlt_opcodes :: "byte list" where
  "hlt_opcodes = [0x02, 0x12, 0x22, 0x32, 0x42, 0x52, 0x62, 0x72, 0x92, 0xB2, 0xD2, 0xF2]"

text \<open>A caller that calls \<open>Step\<close> \<open>k\<close> times in a row and collects what it returned.\<close>

fun Steps :: "'b Bus \<Rightarrow> nat \<Rightarrow> 'b CPU \<Rightarrow> step_result list \<times> 'b CPU" where
  "Steps B 0 c = ([], c)"
| "Steps B (Suc k) c =
     (case Step B c of (r, c') \<Rightarrow> (case Steps B k c' of (rs, c'') \<Rightarrow> (r # rs, c'')))"

section \<open>Predicates used in the proofs\<close>

text \<open>\<open>adds m n\<close>: whenever \<open>m\<close> completes without a panic it has charged exactly \<open>n\<close> cycles.\<close>

definition adds :: "('b, 'v) exec \<Rightarrow> nat \<Rightarrow> bool" where
  "adds m n \<longleftrightarrow> (\<forall>c v c'. m c = (Inr v, c') \<longrightarrow> cycles c' = cycles c + n)"


section \<open>Concrete machines used to exercise the theorems\<close>

text \<open>A CPU on the \<open>panicBus\<close> as \<open>New\<close> leaves it (both vector reads return 0).\<close>

definition panic_cpu :: "unit CPU" where
  "panic_cpu = \<lparr>bus = (), cpu_a = 0, cpu_x = 0, cpu_y = 0, cpu_s = 0xFF, cpu_p = 0,
     pcl = 0, pch = 0, cycles = 0, halted = False\<rparr>"


text \<open>\<open>BNE $0400\<close> (bytes \<open>D0 FE\<close>) at \<open>$0400\<close>, all flags clear.\<close>

definition c7_cpu :: "(16 word \<Rightarrow> byte) CPU" where
  "c7_cpu = \<lparr>bus = (\<lambda>_. 0)(0x0400 := 0xD0, 0x0401 := 0xFE),
     cpu_a = 0, cpu_x = 0, cpu_y = 0, cpu_s = 0xFF, cpu_p = 0,
     pcl = 0x00, pch = 0x04, cycles = 0, halted = False\<rparr>"

text \<open>\<open>JMP ($80FF)\<close> at \<open>$0400\<close>.\<close>

definition c6_cpu :: "(16 word \<Rightarrow> byte) CPU" where
  "c6_cpu = \<lparr>bus = (\<lambda>_. 0)(0x0400 := 0x6C, 0x0401 := 0xFF, 0x0402 := 0x80,
       0x80FF := 0xAA, 0x8000 := 0x55, 0x8100 := 0xCC),
     cpu_a = 0, cpu_x = 0, cpu_y = 0, cpu_s = 0xFF, cpu_p = 0,
     pcl = 0x00, pch = 0x04, cycles = 0, halted = False\<rparr>"

text \<open>RTS, and RTI, at \<open>$0400\<close> with the address \<open>$12FF\<close> on the stack.\<close>

definition c9_rts :: "(16 word \<Rightarrow> byte) CPU" where
  "c9_rts = \<lparr>bus = (\<lambda>_. 0)(0x0400 := 0x60, 0x01FE := 0xFF, 0x01FF := 0x12),
     cpu_a = 0, cpu_x = 0, cpu_y = 0, cpu_s = 0xFD, cpu_p = 0,
     pcl = 0x00, pch = 0x04, cycles = 0, halted = False\<rparr>"

definition c9_rti :: "(16 word \<Rightarrow> byte) CPU" where
  "c9_rti = \<lparr>bus = (\<lambda>_. 0)(0x0400 := 0x40, 0x01FD := 0xF3, 0x01FE := 0xFF, 0x01FF := 0x12),
     cpu_a = 0, cpu_x = 0, cpu_y = 0, cpu_s = 0xFC, cpu_p = 0,
     pcl = 0x00, pch = 0x04, cycles = 0, halted = False\<rparr>"

text \<open>
  Reset vector \<open>$0400\<close>; \<open>NOP\<close> at \<open>$0400\<close>, \<open>HLT\<close> (\<open>0x02\<close>) at \<open>$0401\<close>: the machine
  after \<open>New\<close>, after the NOP, and halted.
\<close>

definition c4_mem :: "16 word \<Rightarrow> byte" where
  "c4_mem = (\<lambda>_. 0)(0xFFFC := 0x00, 0xFFFD := 0x04, 0x0400 := 0xEA, 0x0401 := 0x02)"

definition c4_new :: "(16 word \<Rightarrow> byte) CPU" where
  "c4_new = \<lparr>bus = c4_mem, cpu_a = 0, cpu_x = 0, cpu_y = 0, cpu_s = 0xFF, cpu_p = 0,
     pcl = 0x00, pch = 0x04, cycles = 0, halted = False\<rparr>"

definition c4_cpu :: "(16 word \<Rightarrow> byte) CPU" where
  "c4_cpu = c4_new\<lparr>pcl := 0x01, cycles := 2\<rparr>"

definition c4_halted :: "(16 word \<Rightarrow> byte) CPU" where
  "c4_halted = c4_new\<lparr>pcl := 0x02, cycles := 1, halted := True\<rparr>"


section \<open>Unfolding the model\<close>

lemmas exec_defs = retM_def bindM_def seqM_def getM_def modM_def busRead_def busWrite_def
  cost_def setPC_def incPC_def read_def zread_def vread_def write'_def zwrite_def fetch_def
  setF_def hasF_def setC_def setI_def setN_def setNZ_def setA_def setX_def setY_def
  push_def pop_def pushPC_def popPC_def php_def plp_def cmp_def bit_op_def asl_def lsr_def
  rol_def ror_def abs_addr_def absN_def relN_def indY_def indX_def adc_def sbc_def branch_def

lemmas pure_defs = when'_def uadd_def ovfl_def sadd_def inc_def flag_set_def flag_has_def
  flagN_def flagV_def flagU_def flagB_def flagD_def flagI_def flagZ_def flagC_def

lemma bindM_Inr_iff:
  "bindM m g c = (Inr w, c') \<longleftrightarrow> (\<exists>v c1. m c = (Inr v, c1) \<and> g v c1 = (Inr w, c'))"
  by (auto simp: bindM_def split: prod.splits sum.splits)

lemma seqM_Inr_iff:
  "seqM m n c = (Inr w, c') \<longleftrightarrow> (\<exists>v c1. m c = (Inr v, c1) \<and> n c1 = (Inr w, c'))"
  by (simp add: seqM_def bindM_Inr_iff)

lemma retM_Inr_iff: "retM v c = (Inr w, c') \<longleftrightarrow> w = v \<and> c' = c"
  by (auto simp: retM_def)

lemma getM_Inr_iff: "getM g c = (Inr w, c') \<longleftrightarrow> w = g c \<and> c' = c"
  by (auto simp: getM_def)

lemma modM_Inr_iff: "modM g c = (Inr w, c') \<longleftrightarrow> c' = g c"
  by (auto simp: modM_def)

lemmas Inr_iffs = bindM_Inr_iff seqM_Inr_iff retM_Inr_iff getM_Inr_iff modM_Inr_iff

lemma addsD: "adds m n \<Longrightarrow> m c = (Inr v, c') \<Longrightarrow> cycles c' = cycles c + n"
  by (simp add: adds_def)

lemma adds_cost: "adds (cost n) (unat n)" by (simp add: adds_def cost_def modM_Inr_iff)
lemma adds_busRead: "adds (busRead B l h) 0"
  by (auto simp: adds_def busRead_def split: prod.splits)
lemma adds_read: "adds (read B l h) 1"
  by (auto simp: adds_def read_def Inr_iffs dest!: adds_cost [THEN addsD] adds_busRead [THEN addsD])
lemma adds_incPC: "adds incPC 0"
  by (auto simp: adds_def incPC_def setPC_def Inr_iffs case_prod_unfold)
lemma adds_fetch: "adds (fetch B) 1"
  by (auto simp: adds_def fetch_def Inr_iffs dest!: adds_read [THEN addsD] adds_incPC [THEN addsD])
lemma adds_relN: "adds (relN n) 0"
  by (auto simp: adds_def relN_def Inr_iffs case_prod_unfold)





lemma byte_bounds: "0 \<le> uint (b::byte)" "uint (b::byte) < 256" "-128 \<le> sint b" "sint b < 128"
  using uint_lt2p[of b] sint_ge[of b] sint_lt[of b] by simp_all

lemma ovfl_zero_iff: "s < 512 \<Longrightarrow> -256 \<le> s \<Longrightarrow> (ovfl s = 0) = (0 \<le> s \<and> s < 256)"
  by (auto simp: ovfl_def when'_def drop_bit_eq_div)

lemma ovfl_cases:
  "-256 \<le> s \<Longrightarrow> s < 512 \<Longrightarrow>
   ovfl s = (if 256 \<le> s then 1 else if s < 0 then 0xFF else 0)"
  by (auto simp: ovfl_def when'_def drop_bit_eq_div)

lemma mod_shift:
  assumes "0 \<le> x + k * n" "x + k * n < n"
  shows "(x::int) mod n = x + k * n"
proof -
  have "x mod n = (x + k * n) mod n" by simp
  also have "\<dots> = x + k * n" using assms by (rule mod_pos_pos_trivial)
  finally show ?thesis .
qed

lemma page_arith:
  fixes L H D :: int
  assumes "0 \<le> L" "L < 256" "0 \<le> H" "H < 256" "-128 \<le> D" "D < 128"
  shows "(0 \<le> L + D \<and> L + D < 256) = ((256 * H + L + D) mod 65536 div 256 = (256 * H + L) div 256)"
proof -
  have a: "(256 * H + L) div 256 = H" using assms by simp
  consider "L + D < 0" "H = 0" | "L + D < 0" "H \<noteq> 0" | "0 \<le> L + D" "L + D < 256"
    | "256 \<le> L + D" "H = 255" | "256 \<le> L + D" "H \<noteq> 255" by linarith
  then show ?thesis
  proof cases
    case 1
    have "(256 * H + L + D) mod 65536 = 256 * 255 + (256 + (L + D))"
      using 1 assms mod_shift [of "256 * H + L + D" 1 65536] by simp
    moreover have "(256 * 255 + (256 + (L + D))) div 256 = 255"
      using 1 assms by simp
    ultimately show ?thesis using 1 a by simp
  next
    case 2
    have "(256 * H + L + D) mod 65536 = 256 * (H - 1) + (256 + (L + D))"
      using 2 assms mod_shift [of "256 * H + L + D" 0 65536] by simp
    moreover have "(256 * (H - 1) + (256 + (L + D))) div 256 = H - 1"
      using 2 assms by simp
    ultimately show ?thesis using 2 a by simp
  next
    case 3
    have "(256 * H + L + D) mod 65536 = 256 * H + (L + D)"
      using 3 assms mod_shift [of "256 * H + L + D" 0 65536] by simp
    moreover have "(256 * H + (L + D)) div 256 = H" using 3 by simp
    ultimately show ?thesis using 3 a by simp
  next
    case 4
    have "(256 * H + L + D) mod 65536 = 256 * 0 + ((L + D) - 256)"
      using 4 assms mod_shift [of "256 * H + L + D" "-1" 65536] by simp
    moreover have "(256 * 0 + ((L + D) - 256)) div 256 = 0"
      using 4 assms by simp
    ultimately show ?thesis using 4 a by simp
  next
    case 5
    have "(256 * H + L + D) mod 65536 = 256 * (H + 1) + ((L + D) - 256)"
      using 5 assms mod_shift [of "256 * H + L + D" 0 65536] by simp
    moreover have "(256 * (H + 1) + ((L + D) - 256)) div 256 = H + 1"
      using 5 assms by simp
    ultimately show ?thesis using 5 a by simp
  qed
qed

lemma sadd_page:
  assumes "sadd l (sint d) = (l', ov)"
  shows "(ov = 0) = (branch_target (addr l h) d div 256 = addr l h div 256)"
proof -
  define L H D where "L = uint l" and "H = uint h" and "D = sint d"
  have b: "0 \<le> L" "L < 256" "0 \<le> H" "H < 256" "-128 \<le> D" "D < 128"
    using byte_bounds[of l] byte_bounds[of h] byte_bounds[of d] by (simp_all add: L_def H_def D_def)
  have ov: "ov = ovfl (L + D)" using assms by (simp add: sadd_def Let_def L_def D_def)
  have z: "(ov = 0) = (0 \<le> L + D \<and> L + D < 256)"
    unfolding ov using b by (intro ovfl_zero_iff) linarith+
  have t: "branch_target (256 * H + L) d = (256 * H + L + D) mod 65536"
    by (simp add: branch_target_def D_def)
  have a: "addr l h = 256 * H + L" by (simp add: addr_def L_def H_def)
  show ?thesis unfolding z a t using b by (rule page_arith)
qed

lemma target_arith:
  fixes L H D :: int
  assumes "0 \<le> L" "L < 256" "0 \<le> H" "H < 256" "-128 \<le> D" "D < 128"
  shows "256 * ((H + (if 256 \<le> L + D then 1 else if L + D < 0 then 255 else 0)) mod 256)
           + (L + D) mod 256 = (256 * H + L + D) mod 65536"
proof -
  consider "L + D < 0" "H = 0" | "L + D < 0" "H \<noteq> 0" | "0 \<le> L + D" "L + D < 256"
    | "256 \<le> L + D" "H = 255" | "256 \<le> L + D" "H \<noteq> 255" by linarith
  then show ?thesis
  proof cases
    case 1
    then show ?thesis
      using assms mod_shift [of "256 * H + L + D" 1 65536] mod_shift [of "L + D" 1 256]
      by simp
  next
    case 2
    then show ?thesis
      using assms mod_shift [of "256 * H + L + D" 0 65536] mod_shift [of "L + D" 1 256]
        mod_shift [of "H + 255" "-1" 256]
      by simp
  next
    case 3
    then show ?thesis
      using assms mod_shift [of "256 * H + L + D" 0 65536] mod_shift [of "L + D" 0 256]
        mod_shift [of "H" 0 256]
      by simp
  next
    case 4
    then show ?thesis
      using assms mod_shift [of "256 * H + L + D" "-1" 65536] mod_shift [of "L + D" "-1" 256]
      by simp
  next
    case 5
    then show ?thesis
      using assms mod_shift [of "256 * H + L + D" 0 65536] mod_shift [of "L + D" "-1" 256]
        mod_shift [of "H + 1" 0 256]
      by simp
  qed
qed

lemma sadd_target:
  assumes "sadd l (sint d) = (l', ov)"
  shows "addr l' (h + ov) = branch_target (addr l h) d"
proof -
  define L H D where "L = uint l" and "H = uint h" and "D = sint d"
  have b: "0 \<le> L" "L < 256" "0 \<le> H" "H < 256" "-128 \<le> D" "D < 128"
    using byte_bounds[of l] byte_bounds[of h] byte_bounds[of d] by (simp_all add: L_def H_def D_def)
  have r: "-256 \<le> L + D" "L + D < 512" using b by linarith+
  have ov: "ov = ovfl (L + D)" and l': "l' = word_of_int (L + D)"
    using assms by (simp_all add: sadd_def Let_def L_def D_def)
  have ul: "uint l' = (L + D) mod 256"
    unfolding l' uint_word_of_int by simp
  have uo: "uint ov = (if 256 \<le> L + D then 1 else if L + D < 0 then 255 else 0)"
    unfolding ov ovfl_cases [OF r] by simp
  have uh: "uint (h + ov) = (H + uint ov) mod 256"
    by (simp add: uint_word_ariths H_def)
  have "addr l' (h + ov) = 256 * ((H + uint ov) mod 256) + (L + D) mod 256"
    by (simp add: addr_def ul uh)
  also have "\<dots> = (256 * H + L + D) mod 65536"
    unfolding uo using b by (rule target_arith)
  also have "\<dots> = branch_target (addr l h) d"
    by (simp add: branch_target_def addr_def L_def H_def D_def)
  finally show ?thesis .
qed

lemma fetch_frame:
  assumes "fetch B c = (Inr v, c')"
  shows "cpu_a c' = cpu_a c" "cpu_x c' = cpu_x c" "cpu_y c' = cpu_y c" "cpu_s c' = cpu_s c"
    "cpu_p c' = cpu_p c" "halted c' = halted c"
  using assms
  by (auto simp: fetch_def read_def cost_def busRead_def incPC_def setPC_def Inr_iffs
      split: prod.splits)








section \<open>Program counter arithmetic and running one instruction\<close>

lemma byte_minus_one: "(- 1 :: byte) = 255" by simp

lemma byte_succ_zero_iff: "((l::byte) + 1 = 0) = (uint l = 255)"
proof -
  have "(l + 1 = 0) = (l = - 1)" by (simp add: eq_neg_iff_add_eq_0)
  also have "\<dots> = (l = 255)" by (simp only: byte_minus_one)
  also have "\<dots> = (uint l = uint (255 :: byte))" by (simp only: word_uint_eq_iff)
  also have "\<dots> = (uint l = 255)" by simp
  finally show ?thesis .
qed

lemma succ_succ_mod: "((a + 1) mod 65536 + 1) mod 65536 = (a + 2) mod (65536::int)"
proof -
  have e: "a + 1 + 1 = a + 2" by arith
  have "((a + 1) mod 65536 + 1) mod 65536 = (a + 1 + 1) mod 65536"
    by (rule mod_add_left_eq)
  then show ?thesis unfolding e .
qed

lemma inc_addr:
  assumes "inc l h = (l', h')"
  shows "addr l' h' = (addr l h + 1) mod 65536"
proof -
  define L H where "L = uint l" and "H = uint h"
  have b: "0 \<le> L" "L < 256" "0 \<le> H" "H < 256"
    using byte_bounds[of l] byte_bounds[of h] by (simp_all add: L_def H_def)
  have l': "l' = l + 1" and h': "h' = h + when' (l + 1 = 0) 1 0"
    using assms by (auto simp: inc_def uadd_def Let_def)
  have cr: "(l + 1 = 0) = (256 \<le> L + 1)"
    unfolding byte_succ_zero_iff using b by (auto simp: L_def)
  have ul: "uint l' = (L + 1) mod 256" unfolding l' by (simp add: uint_word_ariths L_def)
  have uh: "uint h' = (H + (if 256 \<le> L + 1 then 1 else if L + 1 < 0 then 255 else 0)) mod 256"
    unfolding h' cr using b by (simp add: uint_word_ariths H_def when'_def)
  have "addr l' h' = 256 * ((H + (if 256 \<le> L + 1 then 1 else if L + 1 < 0 then 255 else 0)) mod 256)
      + (L + 1) mod 256"
    by (simp add: addr_def ul uh)
  also have "\<dots> = (256 * H + L + 1) mod 65536"
    using b by (intro target_arith) simp_all
  finally show ?thesis by (simp add: addr_def L_def H_def)
qed

lemma fetch_pc:
  assumes "fetch B c = (Inr v, c')"
  shows "addr (pcl c') (pch c') = (addr (pcl c) (pch c) + 1) mod 65536"
proof -
  obtain l' h' where i: "inc (pcl c) (pch c) = (l', h')" by (cases "inc (pcl c) (pch c)")
  from assms i have "pcl c' = l'" "pch c' = h'"
    by (auto simp: fetch_def read_def cost_def busRead_def incPC_def setPC_def Inr_iffs
        split: prod.splits)
  with inc_addr [OF i] show ?thesis by simp
qed

lemma Step_run:
  assumes "\<not> halted c" and "fetch B (c\<lparr>cycles := 0\<rparr>) = (Inr code, c1)"
    and "map_of (optable B) code = Some body" and "body c1 = (Inr (), c2)" and "\<not> halted c2"
  shows "Step B c = (Returned (cycles c2) None, c2)"
  using assms by (simp add: Step_def tick_def bindM_def seqM_def modM_def getM_def retM_def)

lemma read_frame:
  assumes "read B l h c = (Inr v, c')"
  shows "cpu_a c' = cpu_a c" "cpu_x c' = cpu_x c" "cpu_y c' = cpu_y c" "cpu_s c' = cpu_s c"
    "cpu_p c' = cpu_p c" "pcl c' = pcl c" "pch c' = pch c" "halted c' = halted c"
    "cycles c' = cycles c + 1"
  using assms by (auto simp: read_def cost_def busRead_def Inr_iffs split: prod.splits)

lemma write_frame:
  assumes "write' B l h v c = (Inr u, c')"
  shows "cpu_a c' = cpu_a c" "cpu_x c' = cpu_x c" "cpu_y c' = cpu_y c" "cpu_s c' = cpu_s c"
    "cpu_p c' = cpu_p c" "pcl c' = pcl c" "pch c' = pch c" "halted c' = halted c"
    "cycles c' = cycles c + 1"
  using assms
  by (auto simp: write'_def cost_def busWrite_def Inr_iffs split: prod.splits option.splits)

lemma pop_frame:
  assumes "pop B c = (Inr v, c')"
  shows "cpu_a c' = cpu_a c" "cpu_x c' = cpu_x c" "cpu_y c' = cpu_y c" "cpu_s c' = cpu_s c + 1"
    "cpu_p c' = cpu_p c" "pcl c' = pcl c" "pch c' = pch c" "halted c' = halted c"
    "cycles c' = cycles c + 1"
  using assms by (auto simp: pop_def Inr_iffs dest: read_frame)

lemma popPC_frame:
  assumes "popPC B c = (Inr v, c')"
  shows "cpu_a c' = cpu_a c" "cpu_x c' = cpu_x c" "cpu_y c' = cpu_y c" "cpu_s c' = cpu_s c + 2"
    "cpu_p c' = cpu_p c" "pcl c' = pcl c" "pch c' = pch c" "halted c' = halted c"
    "cycles c' = cycles c + 2"
proof -
  from assms obtain l h c1 where p1: "pop B c = (Inr l, c1)" and p2: "pop B c1 = (Inr h, c')"
    by (auto simp: popPC_def Inr_iffs)
  show "cpu_a c' = cpu_a c" "cpu_x c' = cpu_x c" "cpu_y c' = cpu_y c" "cpu_s c' = cpu_s c + 2"
    "cpu_p c' = cpu_p c" "pcl c' = pcl c" "pch c' = pch c" "halted c' = halted c"
    "cycles c' = cycles c + 2"
    using pop_frame [OF p1] pop_frame [OF p2] by simp_all
qed

lemma byte_256: "(256 :: byte) = 0" by simp

lemma Step_halted: "halted c \<Longrightarrow> Step B c = (Returned 0 (Some ErrHalted), c)"
  by (simp add: Step_def)

lemma Steps_halted:
  "halted c \<Longrightarrow> Steps B k c = (replicate k (Returned 0 (Some ErrHalted)), c)"
  by (induction k) (simp_all add: Step_halted)

lemma Step_running:
  "\<not> halted c \<Longrightarrow> Step B c =
     (case tick B c of
        (Inr (Some e), c') \<Rightarrow> (Returned 0 (Some e), c')
      | (Inr None, c') \<Rightarrow> (Returned (cycles c') None, c')
      | (Inl (PanicString msg), c') \<Rightarrow> (Returned 0 (Some (Error msg)), c')
      | (Inl PanicOther, c') \<Rightarrow> (Panicked, c'))"
  by (simp add: Step_def)

lemma Reset_running: "Reset B c = (Inr u, c') \<Longrightarrow> \<not> halted c'"
  by (auto simp: Reset_def Inr_iffs busRead_def case_prod_unfold)

lemma op_EA: "map_of (optable B) 0xEA = Some (cost 1)"
  by (simp add: optable_def)

section \<open>Cycle accounting\<close>






section \<open>Halting\<close>

lemma hlt_lookup:
  assumes "code \<in> set hlt_opcodes"
  shows "map_of (optable B) code = Some (modM (\<lambda>c. c\<lparr>halted := True\<rparr>))"
proof -
  have "\<forall>x \<in> set hlt_opcodes. map_of (optable B) x = Some (modM (\<lambda>c. c\<lparr>halted := True\<rparr>))"
    unfolding hlt_opcodes_def by (simp add: optable_def)
  with assms show ?thesis by blast
qed

text \<open>
  Claim C4. Executing any HLT opcode makes \<open>Step\<close> return 0 cycles with \<open>ErrHalted\<close>;
  every subsequent \<open>Step\<close> returns \<open>(0, ErrHalted)\<close> and leaves the CPU and the bus as
  they are; a \<open>Reset\<close> that completes clears the halted condition, after which \<open>Step\<close>
  runs \<open>tick\<close> again.
\<close>

theorem hlt_latches_until_reset:
  assumes "\<not> halted c" and "fetch B (c\<lparr>cycles := 0\<rparr>) = (Inr code, c1)"
    and "code \<in> set hlt_opcodes"
  shows "Step B c = (Returned 0 (Some ErrHalted), c1\<lparr>halted := True\<rparr>) \<and>
    (\<forall>k. Steps B k (c1\<lparr>halted := True\<rparr>)
          = (replicate k (Returned 0 (Some ErrHalted)), c1\<lparr>halted := True\<rparr>)) \<and>
    (\<forall>c2. Reset B (c1\<lparr>halted := True\<rparr>) = (Inr (), c2) \<longrightarrow>
       \<not> halted c2 \<and>
       Step B c2 =
         (case tick B c2 of
            (Inr (Some e), c') \<Rightarrow> (Returned 0 (Some e), c')
          | (Inr None, c') \<Rightarrow> (Returned (cycles c') None, c')
          | (Inl (PanicString msg), c') \<Rightarrow> (Returned 0 (Some (Error msg)), c')
          | (Inl PanicOther, c') \<Rightarrow> (Panicked, c')))"
proof (intro conjI allI impI)
  show "Step B c = (Returned 0 (Some ErrHalted), c1\<lparr>halted := True\<rparr>)"
    using assms(1,2) hlt_lookup [OF assms(3), of B]
    by (simp add: Step_def tick_def bindM_def seqM_def modM_def getM_def retM_def)
next
  fix k
  show "Steps B k (c1\<lparr>halted := True\<rparr>)
      = (replicate k (Returned 0 (Some ErrHalted)), c1\<lparr>halted := True\<rparr>)"
    by (rule Steps_halted) simp
next
  fix c2 assume r: "Reset B (c1\<lparr>halted := True\<rparr>) = (Inr (), c2)"
  show "\<not> halted c2" using r by (rule Reset_running)
  then show "Step B c2 =
         (case tick B c2 of
            (Inr (Some e), c') \<Rightarrow> (Returned 0 (Some e), c')
          | (Inr None, c') \<Rightarrow> (Returned (cycles c') None, c')
          | (Inl (PanicString msg), c') \<Rightarrow> (Returned 0 (Some (Error msg)), c')
          | (Inl PanicOther, c') \<Rightarrow> (Panicked, c'))"
    by (rule Step_running)
qed

text \<open>
  \<open>NOP; HLT\<close> at the reset vector \<open>$0400\<close>: the NOP runs, the HLT halts, two further
  Steps are still halted, and \<open>Reset\<close> brings back the machine on which the NOP ran.
\<close>

theorem hlt_latches_until_reset_witness:
  "New memoryBus c4_mem = (Inr (), c4_new) \<and>
   Step memoryBus c4_new = (Returned 2 None, c4_cpu) \<and>
   Step memoryBus c4_cpu = (Returned 0 (Some ErrHalted), c4_halted) \<and>
   Steps memoryBus 2 c4_halted
     = ([Returned 0 (Some ErrHalted), Returned 0 (Some ErrHalted)], c4_halted) \<and>
   Reset memoryBus c4_halted = (Inr (), c4_new)"
proof -
  have n: "New memoryBus c4_mem = (Inr (), c4_new)"
    by (simp add: New_def Reset_def exec_defs memoryBus_def c4_mem_def c4_new_def)
  have s0: "Step memoryBus c4_new = (Returned 2 None, c4_cpu)"
    by (simp add: Step_def tick_def op_EA exec_defs pure_defs memoryBus_def
        c4_mem_def c4_new_def c4_cpu_def)
  have h: "\<not> halted c4_cpu" by (simp add: c4_cpu_def c4_new_def)
  have f: "fetch memoryBus (c4_cpu\<lparr>cycles := 0\<rparr>)
      = (Inr 0x02, c4_new\<lparr>pcl := 0x02, cycles := 1\<rparr>)"
    by (simp add: exec_defs pure_defs memoryBus_def c4_mem_def c4_new_def c4_cpu_def)
  have m: "(0x02 :: byte) \<in> set hlt_opcodes" by (simp add: hlt_opcodes_def)
  have e: "c4_new\<lparr>pcl := 0x02, cycles := 1\<rparr>\<lparr>halted := True\<rparr> = c4_halted"
    by (simp add: c4_halted_def)
  have r: "Reset memoryBus c4_halted = (Inr (), c4_new)"
    by (simp add: Reset_def exec_defs memoryBus_def c4_mem_def c4_new_def c4_halted_def)
  have two: "replicate 2 (Returned 0 (Some ErrHalted))
      = [Returned 0 (Some ErrHalted), Returned 0 (Some ErrHalted)]"
    by (simp add: numeral_2_eq_2)
  from hlt_latches_until_reset [OF h f m, unfolded e]
  have "Step memoryBus c4_cpu = (Returned 0 (Some ErrHalted), c4_halted)"
    and "Steps memoryBus 2 c4_halted = (replicate 2 (Returned 0 (Some ErrHalted)), c4_halted)"
    and "\<not> halted c4_new"
    using r by blast+
  with n s0 r two show ?thesis by simp
qed

section \<open>Invalid opcodes\<close>




section \<open>Indirect jump\<close>

lemma op_6C: "map_of (optable B) 0x6C = Some (bindM (abs_addr B) (\<lambda>(v1, v2).
    bindM (read B v1 v2) (\<lambda>v3. bindM (read B (v1 + 1) v2) (\<lambda>v4. setPC v3 v4))))"
  by (simp add: optable_def)

text \<open>
  Claim C6. For every indirect JMP (opcode \<open>0x6C\<close>) whose pointer lies at the end of a
  page (low byte \<open>0xFF\<close>, high byte \<open>h\<close>), the low byte of the target is read from
  \<open>(0xFF, h)\<close> and the high byte from \<open>(0x00, h)\<close>, the start of the same page; PC becomes
  that target and \<open>Step\<close> reports 5 cycles.
\<close>

theorem jmp_indirect_page_wrap:
  assumes "\<not> halted c"
    and "fetch B (c\<lparr>cycles := 0\<rparr>) = (Inr 0x6C, c1)"
    and "fetch B c1 = (Inr 0xFF, c2)" and "fetch B c2 = (Inr h, c3)"
    and "read B 0xFF h c3 = (Inr lo, c4)" and "read B 0x00 h c4 = (Inr hi, c5)"
  shows "Step B c = (Returned 5 None, c5\<lparr>pcl := lo, pch := hi\<rparr>)"
proof -
  have body: "bindM (abs_addr B) (\<lambda>(v1, v2). bindM (read B v1 v2) (\<lambda>v3.
      bindM (read B (v1 + 1) v2) (\<lambda>v4. setPC v3 v4))) c1 = (Inr (), c5\<lparr>pcl := lo, pch := hi\<rparr>)"
    using assms(3-6) by (simp add: abs_addr_def bindM_def retM_def setPC_def modM_def byte_256)
  have cy: "cycles c5 = 5"
    using adds_fetch [THEN addsD, OF assms(2)] adds_fetch [THEN addsD, OF assms(3)]
      adds_fetch [THEN addsD, OF assms(4)] read_frame(9) [OF assms(5)] read_frame(9) [OF assms(6)]
    by simp
  have hl: "halted c5 = halted c"
    using fetch_frame(6) [OF assms(2)] fetch_frame(6) [OF assms(3)] fetch_frame(6) [OF assms(4)]
      read_frame(8) [OF assms(5)] read_frame(8) [OF assms(6)]
    by simp
  have "Step B c = (Returned (cycles (c5\<lparr>pcl := lo, pch := hi\<rparr>)) None, c5\<lparr>pcl := lo, pch := hi\<rparr>)"
    using assms(1,2) op_6C body by (rule Step_run) (simp add: hl assms(1))
  then show ?thesis by (simp add: cy)
qed


text \<open>
  \<open>JMP ($80FF)\<close> with \<open>$80FF = 0xAA\<close>, \<open>$8000 = 0x55\<close>, \<open>$8100 = 0xCC\<close>: PC becomes
  \<open>$55AA\<close>, in 5 cycles.
\<close>

theorem jmp_indirect_page_wrap_witness:
  "Step memoryBus c6_cpu = (Returned 5 None, c6_cpu\<lparr>pcl := 0xAA, pch := 0x55, cycles := 5\<rparr>)"
proof -
  have h: "\<not> halted c6_cpu" by (simp add: c6_cpu_def)
  have f1: "fetch memoryBus (c6_cpu\<lparr>cycles := 0\<rparr>)
      = (Inr 0x6C, c6_cpu\<lparr>pcl := 0x01, cycles := 1\<rparr>)"
    by (simp add: exec_defs pure_defs memoryBus_def c6_cpu_def)
  have f2: "fetch memoryBus (c6_cpu\<lparr>pcl := 0x01, cycles := 1\<rparr>)
      = (Inr 0xFF, c6_cpu\<lparr>pcl := 0x02, cycles := 2\<rparr>)"
    by (simp add: exec_defs pure_defs memoryBus_def c6_cpu_def)
  have f3: "fetch memoryBus (c6_cpu\<lparr>pcl := 0x02, cycles := 2\<rparr>)
      = (Inr 0x80, c6_cpu\<lparr>pcl := 0x03, cycles := 3\<rparr>)"
    by (simp add: exec_defs pure_defs memoryBus_def c6_cpu_def)
  have r1: "read memoryBus 0xFF 0x80 (c6_cpu\<lparr>pcl := 0x03, cycles := 3\<rparr>)
      = (Inr 0xAA, c6_cpu\<lparr>pcl := 0x03, cycles := 4\<rparr>)"
    by (simp add: exec_defs pure_defs memoryBus_def c6_cpu_def)
  have r2: "read memoryBus 0x00 0x80 (c6_cpu\<lparr>pcl := 0x03, cycles := 4\<rparr>)
      = (Inr 0x55, c6_cpu\<lparr>pcl := 0x03, cycles := 5\<rparr>)"
    by (simp add: exec_defs pure_defs memoryBus_def c6_cpu_def)
  from jmp_indirect_page_wrap [OF h f1 f2 f3 r1 r2] show ?thesis by simp
qed

section \<open>Conditional branches\<close>

lemma branch_lookup:
  assumes "code \<in> set branches"
  shows "\<exists>fl g. map_of (optable B) code = Some (bindM (hasF fl) (\<lambda>v. branch B (g v))) \<and>
            (\<forall>f. branch_taken code f = g (flag_has f fl))"
proof -
  from assms consider "code = 0x10" | "code = 0x30" | "code = 0x50" | "code = 0x70"
    | "code = 0x90" | "code = 0xB0" | "code = 0xD0" | "code = 0xF0"
    by (auto simp: branches_def)
  then show ?thesis
  proof cases
    case 1
    show ?thesis unfolding 1
      by (rule exI [of _ flagN], rule exI [of _ "\<lambda>v. \<not> v"])
        (simp add: optable_def branch_taken_def flag_has_def flagN_def)
  next
    case 2
    show ?thesis unfolding 2
      by (rule exI [of _ flagN], rule exI [of _ "\<lambda>v. v"])
        (simp add: optable_def branch_taken_def flag_has_def flagN_def)
  next
    case 3
    show ?thesis unfolding 3
      by (rule exI [of _ flagV], rule exI [of _ "\<lambda>v. \<not> v"])
        (simp add: optable_def branch_taken_def flag_has_def flagV_def)
  next
    case 4
    show ?thesis unfolding 4
      by (rule exI [of _ flagV], rule exI [of _ "\<lambda>v. v"])
        (simp add: optable_def branch_taken_def flag_has_def flagV_def)
  next
    case 5
    show ?thesis unfolding 5
      by (rule exI [of _ flagC], rule exI [of _ "\<lambda>v. \<not> v"])
        (simp add: optable_def branch_taken_def flag_has_def flagC_def)
  next
    case 6
    show ?thesis unfolding 6
      by (rule exI [of _ flagC], rule exI [of _ "\<lambda>v. v"])
        (simp add: optable_def branch_taken_def flag_has_def flagC_def)
  next
    case 7
    show ?thesis unfolding 7
      by (rule exI [of _ flagZ], rule exI [of _ "\<lambda>v. \<not> v"])
        (simp add: optable_def branch_taken_def flag_has_def flagZ_def)
  next
    case 8
    show ?thesis unfolding 8
      by (rule exI [of _ flagZ], rule exI [of _ "\<lambda>v. v"])
        (simp add: optable_def branch_taken_def flag_has_def flagZ_def)
  qed
qed

lemma branch_run:
  assumes f: "fetch B c1 = (Inr d, c2)"
  shows "\<exists>c'. branch B cond c1 = (Inr (), c') \<and> halted c' = halted c2 \<and>
     (if \<not> cond then c' = c2
      else addr (pcl c') (pch c') = branch_target (addr (pcl c2) (pch c2)) d \<and>
           cycles c' = cycles c2 + branch_extra True (addr (pcl c2) (pch c2)) d)"
proof (cases cond)
  case False
  then show ?thesis using f by (simp add: branch_def bindM_def retM_def)
next
  case True
  obtain l ov where s: "sadd (pcl c2) (sint d) = (l, ov)" by (cases "sadd (pcl c2) (sint d)")
  have u: "unat (1 + when' (ov = 0) 0 1 :: byte) = branch_extra True (addr (pcl c2) (pch c2)) d"
    using sadd_page [OF s, of "pch c2"] by (auto simp: when'_def branch_extra_def)
  have "branch B cond c1 = (Inr (), c2\<lparr>cycles := cycles c2 + unat (1 + when' (ov = 0) 0 1 :: byte),
      pcl := l, pch := pch c2 + ov\<rparr>)"
    using True f s
    by (simp add: branch_def relN_def cost_def setPC_def bindM_def seqM_def getM_def modM_def retM_def)
  then show ?thesis using True u sadd_target [OF s, of "pch c2"] by simp
qed

text \<open>
  Claim C7. For every conditional branch instruction: if the condition is false, PC
  advances by 2 and \<open>Step\<close> reports 2 cycles; if the condition is true, PC becomes the
  target (the address of the next instruction plus the signed displacement), and \<open>Step\<close>
  reports 3 cycles when the target is on the page of the instruction after the branch
  and 4 cycles when it is on a different page.
\<close>

theorem branch_cycles_and_target:
  assumes "\<not> halted c"
    and "fetch B (c\<lparr>cycles := 0\<rparr>) = (Inr code, c1)" and "code \<in> set branches"
    and "fetch B c1 = (Inr d, c2)"
  shows "\<exists>n c'. Step B c = (Returned n None, c') \<and>
     (if \<not> branch_taken code (cpu_p c)
      then n = 2 \<and> c' = c2 \<and> addr (pcl c') (pch c') = (addr (pcl c) (pch c) + 2) mod 65536
      else addr (pcl c') (pch c') = branch_target (addr (pcl c2) (pch c2)) d \<and>
           (if branch_target (addr (pcl c2) (pch c2)) d div 256 = addr (pcl c2) (pch c2) div 256
            then n = 3 else n = 4))"
proof -
  from branch_lookup [OF assms(3)] obtain fl g
    where m: "map_of (optable B) code = Some (bindM (hasF fl) (\<lambda>v. branch B (g v)))"
      and g: "\<And>f. branch_taken code f = g (flag_has f fl)"
    by blast
  have p1: "cpu_p c1 = cpu_p c" and h1: "halted c1 = halted c"
    using fetch_frame [OF assms(2)] by simp_all
  have h2: "halted c2 = halted c" using fetch_frame [OF assms(4)] h1 by simp
  have cy1: "cycles c1 = 1" using adds_fetch [THEN addsD, OF assms(2)] by simp
  have cy2: "cycles c2 = 2" using adds_fetch [THEN addsD, OF assms(4)] cy1 by simp
  have pc1: "addr (pcl c1) (pch c1) = (addr (pcl c) (pch c) + 1) mod 65536"
    using fetch_pc [OF assms(2)] by simp
  have pc2: "addr (pcl c2) (pch c2) = (addr (pcl c) (pch c) + 2) mod 65536"
    unfolding fetch_pc [OF assms(4)] pc1 by (rule succ_succ_mod)
  from branch_run [OF assms(4), of "branch_taken code (cpu_p c)"] obtain c'
    where b: "branch B (branch_taken code (cpu_p c)) c1 = (Inr (), c')"
      and hc: "halted c' = halted c2"
      and r: "if \<not> branch_taken code (cpu_p c) then c' = c2
        else addr (pcl c') (pch c') = branch_target (addr (pcl c2) (pch c2)) d \<and>
             cycles c' = cycles c2 + branch_extra True (addr (pcl c2) (pch c2)) d"
    by blast
  have body: "bindM (hasF fl) (\<lambda>v. branch B (g v)) c1 = (Inr (), c')"
    using b by (simp add: bindM_def hasF_def getM_def g p1)
  have "Step B c = (Returned (cycles c') None, c')"
    using assms(1) assms(2) m body by (rule Step_run) (simp add: hc h2 assms(1))
  then show ?thesis using r cy2 pc2 by (auto simp: branch_extra_def)
qed

text \<open>
  \<open>D0 FE\<close> (BNE to its own address) at \<open>$0400\<close>: with Z clear the branch is taken
  within the page and costs 3 cycles; with Z set PC becomes \<open>$0402\<close> and the cost is 2.
\<close>

theorem branch_cycles_and_target_witness:
  "Step memoryBus c7_cpu = (Returned 3 None, c7_cpu\<lparr>cycles := 3\<rparr>) \<and>
   Step memoryBus (c7_cpu\<lparr>cpu_p := 0x02\<rparr>)
     = (Returned 2 None, c7_cpu\<lparr>cpu_p := 0x02, pcl := 0x02, cycles := 2\<rparr>)"
proof -
  have op: "map_of (optable B) 0xD0 = Some (bindM (hasF flagZ) (\<lambda>v. branch B (\<not> v)))"
    for B :: "(16 word \<Rightarrow> byte) Bus"
    by (simp add: optable_def)
  have s1: "Step memoryBus c7_cpu = (Returned 3 None, c7_cpu\<lparr>cycles := 3\<rparr>)"
    by (simp add: Step_def tick_def op exec_defs pure_defs memoryBus_def c7_cpu_def)
  have s2: "Step memoryBus (c7_cpu\<lparr>cpu_p := 0x02\<rparr>)
      = (Returned 2 None, c7_cpu\<lparr>cpu_p := 0x02, pcl := 0x02, cycles := 2\<rparr>)"
    by (simp add: Step_def tick_def op exec_defs pure_defs memoryBus_def c7_cpu_def)
  have h: "\<not> halted c7_cpu" by (simp add: c7_cpu_def)
  have f1: "fetch memoryBus (c7_cpu\<lparr>cycles := 0\<rparr>) = (Inr 0xD0, c7_cpu\<lparr>pcl := 0x01, cycles := 1\<rparr>)"
    by (simp add: exec_defs pure_defs memoryBus_def c7_cpu_def)
  have b: "(0xD0 :: byte) \<in> set branches" by (simp add: branches_def)
  have f2: "fetch memoryBus (c7_cpu\<lparr>pcl := 0x01, cycles := 1\<rparr>)
      = (Inr 0xFE, c7_cpu\<lparr>pcl := 0x02, cycles := 2\<rparr>)"
    by (simp add: exec_defs pure_defs memoryBus_def c7_cpu_def)
  from branch_cycles_and_target [OF h f1 b f2] s1 s2 show ?thesis by simp
qed

section \<open>Returns\<close>

lemma op_60: "map_of (optable B) 0x60 = Some (bindM (popPC B) (\<lambda>(v1, v2).
    bindM (retM (inc v1 v2)) (\<lambda>(v3, v4). seqM (setPC v3 v4) (cost 3))))"
  by (simp add: optable_def)

lemma op_40: "map_of (optable B) 0x40 = Some (seqM (plp B) (bindM (popPC B) (\<lambda>(v1, v2).
    seqM (setPC v1 v2) (cost 3))))"
  by (simp add: optable_def)

text \<open>
  Claim C9. RTS sets PC to the popped 16-bit value plus 1, the carry going from the low
  into the high byte; RTI first pulls the status register (U and B masked off) and then
  sets PC to the popped 16-bit value exactly, without the increment.
\<close>

theorem rts_increments_rti_does_not:
  assumes "\<not> halted c" and "fetch B (c\<lparr>cycles := 0\<rparr>) = (Inr code, c1)"
  shows "(code = 0x60 \<longrightarrow> (\<forall>l h c2. popPC B c1 = (Inr (l, h), c2) \<longrightarrow>
            (\<exists>c'. Step B c = (Returned 6 None, c') \<and>
                  addr (pcl c') (pch c') = (addr l h + 1) mod 65536 \<and> cpu_p c' = cpu_p c))) \<and>
         (code = 0x40 \<longrightarrow> (\<forall>f l h c2 c3. pop B c1 = (Inr f, c2) \<longrightarrow>
            popPC B (c2\<lparr>cpu_p := f AND NOT (flagU OR flagB)\<rparr>) = (Inr (l, h), c3) \<longrightarrow>
            (\<exists>c'. Step B c = (Returned 7 None, c') \<and> pcl c' = l \<and> pch c' = h \<and>
                  cpu_p c' = f AND NOT (flagU OR flagB))))"
proof (intro conjI impI allI)
  fix l h c2
  assume code: "code = 0x60" and p: "popPC B c1 = (Inr (l, h), c2)"
  obtain l' h' where i: "inc l h = (l', h')" by (cases "inc l h")
  let ?c' = "c2\<lparr>pcl := l', pch := h', cycles := cycles c2 + 3\<rparr>"
  have body: "bindM (popPC B) (\<lambda>(v1, v2). bindM (retM (inc v1 v2)) (\<lambda>(v3, v4).
      seqM (setPC v3 v4) (cost 3))) c1 = (Inr (), ?c')"
    using p i by (simp add: bindM_def seqM_def retM_def setPC_def cost_def modM_def)
  have f: "fetch B (c\<lparr>cycles := 0\<rparr>) = (Inr 0x60, c1)" using assms(2) code by simp
  have cy: "cycles c2 = 3"
    using adds_fetch [THEN addsD, OF f] popPC_frame(9) [OF p] by simp
  have hl: "halted c2 = halted c" and pp: "cpu_p c2 = cpu_p c"
    using fetch_frame [OF f] popPC_frame [OF p] by simp_all
  have "Step B c = (Returned (cycles ?c') None, ?c')"
    using assms(1) f op_60 body by (rule Step_run) (simp add: hl assms(1))
  then show "\<exists>c'. Step B c = (Returned 6 None, c') \<and>
      addr (pcl c') (pch c') = (addr l h + 1) mod 65536 \<and> cpu_p c' = cpu_p c"
    using cy pp inc_addr [OF i] by simp
next
  fix f l h c2 c3
  assume code: "code = 0x40" and p1: "pop B c1 = (Inr f, c2)"
    and p2: "popPC B (c2\<lparr>cpu_p := f AND NOT (flagU OR flagB)\<rparr>) = (Inr (l, h), c3)"
  let ?c' = "c3\<lparr>pcl := l, pch := h, cycles := cycles c3 + 3\<rparr>"
  have body: "seqM (plp B) (bindM (popPC B) (\<lambda>(v1, v2). seqM (setPC v1 v2) (cost 3))) c1
      = (Inr (), ?c')"
    using p1 p2 by (simp add: plp_def bindM_def seqM_def retM_def setPC_def cost_def modM_def)
  have fe: "fetch B (c\<lparr>cycles := 0\<rparr>) = (Inr 0x40, c1)" using assms(2) code by simp
  have cy: "cycles c3 = 4"
    using adds_fetch [THEN addsD, OF fe] pop_frame(9) [OF p1] popPC_frame(9) [OF p2] by simp
  have hl: "halted c3 = halted c" and pp: "cpu_p c3 = f AND NOT (flagU OR flagB)"
    using fetch_frame [OF fe] pop_frame [OF p1] popPC_frame [OF p2] by simp_all
  have "Step B c = (Returned (cycles ?c') None, ?c')"
    using assms(1) fe op_40 body by (rule Step_run) (simp add: hl assms(1))
  then show "\<exists>c'. Step B c = (Returned 7 None, c') \<and> pcl c' = l \<and> pch c' = h \<and>
      cpu_p c' = f AND NOT (flagU OR flagB)"
    using cy pp by simp
qed

text \<open>
  With \<open>$12FF\<close> on the stack, RTS continues at \<open>$1300\<close> and RTI at \<open>$12FF\<close>; RTI loads
  the status \<open>0xF3\<close> from the stack as \<open>0xC3\<close>.
\<close>

theorem rts_increments_rti_does_not_witness:
  "Step memoryBus c9_rts
     = (Returned 6 None, c9_rts\<lparr>cpu_s := 0xFF, pcl := 0x00, pch := 0x13, cycles := 6\<rparr>) \<and>
   Step memoryBus c9_rti
     = (Returned 7 None,
        c9_rti\<lparr>cpu_s := 0xFF, cpu_p := 0xC3, pcl := 0xFF, pch := 0x12, cycles := 7\<rparr>)"
proof -
  have h1: "\<not> halted c9_rts" and h2: "\<not> halted c9_rti"
    by (simp_all add: c9_rts_def c9_rti_def)
  have f1: "fetch memoryBus (c9_rts\<lparr>cycles := 0\<rparr>)
      = (Inr 0x60, c9_rts\<lparr>pcl := 0x01, cycles := 1\<rparr>)"
    by (simp add: exec_defs pure_defs memoryBus_def c9_rts_def)
  have p1: "popPC memoryBus (c9_rts\<lparr>pcl := 0x01, cycles := 1\<rparr>)
      = (Inr (0xFF, 0x12), c9_rts\<lparr>cpu_s := 0xFF, pcl := 0x01, cycles := 3\<rparr>)"
    by (simp add: exec_defs pure_defs memoryBus_def c9_rts_def)
  have f2: "fetch memoryBus (c9_rti\<lparr>cycles := 0\<rparr>)
      = (Inr 0x40, c9_rti\<lparr>pcl := 0x01, cycles := 1\<rparr>)"
    by (simp add: exec_defs pure_defs memoryBus_def c9_rti_def)
  have p2: "pop memoryBus (c9_rti\<lparr>pcl := 0x01, cycles := 1\<rparr>)
      = (Inr 0xF3, c9_rti\<lparr>cpu_s := 0xFD, pcl := 0x01, cycles := 2\<rparr>)"
    by (simp add: exec_defs pure_defs memoryBus_def c9_rti_def)
  have p3: "popPC memoryBus
        (c9_rti\<lparr>cpu_s := 0xFD, pcl := 0x01, cycles := 2, cpu_p := 0xF3 AND NOT (flagU OR flagB)\<rparr>)
      = (Inr (0xFF, 0x12), c9_rti\<lparr>cpu_s := 0xFF, cpu_p := 0xC3, pcl := 0x01, cycles := 4\<rparr>)"
    by (simp add: exec_defs pure_defs memoryBus_def c9_rti_def)
  have s1: "Step memoryBus c9_rts
      = (Returned 6 None, c9_rts\<lparr>cpu_s := 0xFF, pcl := 0x00, pch := 0x13, cycles := 6\<rparr>)"
    by (simp add: Step_def tick_def op_60 exec_defs pure_defs memoryBus_def c9_rts_def)
  have s2: "Step memoryBus c9_rti
      = (Returned 7 None,
         c9_rti\<lparr>cpu_s := 0xFF, cpu_p := 0xC3, pcl := 0xFF, pch := 0x12, cycles := 7\<rparr>)"
    by (simp add: Step_def tick_def op_40 exec_defs pure_defs memoryBus_def c9_rti_def)
  have "\<exists>c'. Step memoryBus c9_rts = (Returned 6 None, c') \<and>
      addr (pcl c') (pch c') = (addr 0xFF 0x12 + 1) mod 65536 \<and> cpu_p c' = cpu_p c9_rts"
    using rts_increments_rti_does_not [OF h1 f1] p1 by blast
  moreover have "\<exists>c'. Step memoryBus c9_rti = (Returned 7 None, c') \<and>
      pcl c' = 0xFF \<and> pch c' = 0x12 \<and> cpu_p c' = 0xF3 AND NOT (flagU OR flagB)"
    using rts_increments_rti_does_not [OF h2 f2] p2 p3 by blast
  ultimately show ?thesis using s1 s2 by simp
qed

section \<open>Errors cost no cycles\<close>

text \<open>
  Claim C10. Whenever \<open>Step\<close> returns an error (halted, invalid opcode, or a bus panic
  recovered as an error), the cycle count it returns is 0, whatever the instruction
  had charged to \<open>cpu.cycles\<close> before failing.
\<close>

theorem Step_error_returns_zero_cycles:
  "Step B c = (Returned n (Some e), c') \<Longrightarrow> n = 0"
  by (auto simp: Step_def split: if_splits prod.splits sum.splits option.splits panic.splits)

text \<open>
  On the \<open>panicBus\<close> the opcode fetch at \<open>$0000\<close> panics with \<open>foo\<close> after one cycle
  has been charged: the field \<open>cycles\<close> is 1, the count returned is 0.
\<close>

theorem Step_error_returns_zero_cycles_witness:
  "New panicBus () = (Inr (), panic_cpu) \<and>
   Step panicBus panic_cpu = (Returned 0 (Some (Error ''foo'')), panic_cpu\<lparr>cycles := 1\<rparr>)"
proof -
  have n: "New panicBus () = (Inr (), panic_cpu)"
    by (simp add: New_def Reset_def exec_defs panicBus_def panic_cpu_def)
  obtain r c' where s: "Step panicBus panic_cpu = (r, c')"
    by (cases "Step panicBus panic_cpu")
  have c': "c' = panic_cpu\<lparr>cycles := 1\<rparr>" and r: "\<exists>n. r = Returned n (Some (Error ''foo''))"
    using s by (auto simp add: Step_def tick_def exec_defs panicBus_def panic_cpu_def)
  then obtain n where rn: "r = Returned n (Some (Error ''foo''))" by blast
  have "n = 0" using Step_error_returns_zero_cycles [OF s [unfolded rn]] .
  with n s rn c' show ?thesis by simp
qed

end
